theory Spec2Isabelle
  imports Main
begin

section \<open>Python values\<close>

text \<open>
  The program of \<^verbatim>\<open>telstrasmsqt.py\<close> handles values that come out of
  \<^verbatim>\<open>json.load\<close> and \<^verbatim>\<open>response.json()\<close>, and strings typed by the user. A value is
  modelled by the type \<open>json\<close>: \<open>JNull\<close> is Python's \<^verbatim>\<open>None\<close>, a list is \<open>JArr\<close>, a
  dict is \<open>JObj\<close>, an association list in insertion order whose keys are distinct (a dict has
  each key once). A float is kept as its literal, the program never computes with one. An
  integer is one that the json module reads and writes, of at most 4300 digits.
  A \<^verbatim>\<open>str\<close> is a \<open>string\<close>: the characters are the code points below 256.
\<close>

datatype json =
    JNull
  | JBool bool
  | JInt int
  | JFloat string
  | JStr string
  | JArr "json list"
  | JObj "(string \<times> json) list"

text \<open>The exceptions the program can meet, by class; a \<^verbatim>\<open>KeyError\<close> has the key.\<close>

datatype py_error =
    KeyError json
  | IndexError
  | TypeError
  | AttributeError
  | ValueError
  | OSError
  | UnicodeDecodeError
  | RecursionError
  | OverflowError

text \<open>\<^verbatim>\<open>d[k] = v\<close> on a dict: an existing key keeps its place, a new key goes last.\<close>

fun dict_set :: "string \<Rightarrow> json \<Rightarrow> (string \<times> json) list \<Rightarrow> (string \<times> json) list" where
  "dict_set k v [] = [(k, v)]"
| "dict_set k v (p # d) = (if fst p = k then (k, v) # d else p # dict_set k v d)"

text \<open>\<^verbatim>\<open>x[k]\<close> for a string \<open>k\<close>: only a dict has string subscripts.\<close>

fun getitem_str :: "json \<Rightarrow> string \<Rightarrow> py_error + json" where
  "getitem_str (JObj d) k = (case map_of d k of None \<Rightarrow> Inl (KeyError (JStr k)) | Some v \<Rightarrow> Inr v)"
| "getitem_str _ k = Inl TypeError"

text \<open>
  A Python index into a sequence of length \<open>n\<close>: a negative index counts from the end, and
  the position is \<open>None\<close> where Python raises \<^verbatim>\<open>IndexError\<close>.
\<close>

definition py_index :: "nat \<Rightarrow> int \<Rightarrow> nat option" where
  "py_index n i =
     (let j = (if i < 0 then i + int n else i)
      in if 0 \<le> j \<and> j < int n then Some (nat j) else None)"

text \<open>
  \<^verbatim>\<open>x[i]\<close> for an integer \<open>i\<close>. A dict made by the json module has string keys only, so an
  integer is never one of its keys.
\<close>

fun getitem_int :: "json \<Rightarrow> int \<Rightarrow> py_error + json" where
  "getitem_int (JArr xs) i =
     (case py_index (length xs) i of None \<Rightarrow> Inl IndexError | Some j \<Rightarrow> Inr (xs ! j))"
| "getitem_int (JStr s) i =
     (case py_index (length s) i of None \<Rightarrow> Inl IndexError | Some j \<Rightarrow> Inr (JStr [s ! j]))"
| "getitem_int (JObj d) i = Inl (KeyError (JInt i))"
| "getitem_int _ i = Inl TypeError"

text \<open>\<^verbatim>\<open>x[k] = v\<close> for a string \<open>k\<close>: only a dict takes it.\<close>

fun setitem_str :: "json \<Rightarrow> string \<Rightarrow> json \<Rightarrow> py_error + json" where
  "setitem_str (JObj d) k v = Inr (JObj (dict_set k v d))"
| "setitem_str _ k v = Inl TypeError"

text \<open>\<^verbatim>\<open>len(x)\<close>.\<close>

fun py_len :: "json \<Rightarrow> py_error + nat" where
  "py_len (JArr xs) = Inr (length xs)"
| "py_len (JObj d) = Inr (length d)"
| "py_len (JStr s) = Inr (length s)"
| "py_len _ = Inl TypeError"

text \<open>\<^verbatim>\<open>x.append(v)\<close>: only a list has the method.\<close>

fun py_append :: "json \<Rightarrow> json \<Rightarrow> py_error + json" where
  "py_append (JArr xs) v = Inr (JArr (xs @ [v]))"
| "py_append _ v = Inl AttributeError"

text \<open>Iterating a value, as \<^verbatim>\<open>enumerate\<close> does: a dict yields its keys, a string its characters.\<close>

fun py_iter :: "json \<Rightarrow> py_error + json list" where
  "py_iter (JArr xs) = Inr xs"
| "py_iter (JObj d) = Inr (map (\<lambda>p. JStr (fst p)) d)"
| "py_iter (JStr s) = Inr (map (\<lambda>c. JStr [c]) s)"
| "py_iter _ = Inl TypeError"

fun starts_with :: "string \<Rightarrow> string \<Rightarrow> bool" where
  "starts_with [] t = True"
| "starts_with (c # s) [] = False"
| "starts_with (c # s) (d # t) = (c = d \<and> starts_with s t)"

fun is_substring :: "string \<Rightarrow> string \<Rightarrow> bool" where
  "is_substring s [] = (s = [])"
| "is_substring s (c # t) = (starts_with s (c # t) \<or> is_substring s t)"

text \<open>
  \<^verbatim>\<open>s in x\<close> for a string \<open>s\<close>: a key of a dict, an element of a list, a substring of a
  string; any other value is not a container.
\<close>

fun contains_str :: "string \<Rightarrow> json \<Rightarrow> py_error + bool" where
  "contains_str s (JObj d) = Inr (List.member (map fst d) s)"
| "contains_str s (JArr xs) = Inr (List.member xs (JStr s))"
| "contains_str s (JStr t) = Inr (is_substring s t)"
| "contains_str s _ = Inl TypeError"

subsection \<open>Strings\<close>

text \<open>
  The characters \<^verbatim>\<open>str.split()\<close> treats as whitespace, among the code points below 256:
  tab to carriage return, the four separators 28 to 31, the space, NEL and the no-break space.
\<close>

definition is_space :: "char \<Rightarrow> bool" where
  "is_space c =
     (let n = (of_char c :: nat)
      in (9 \<le> n \<and> n \<le> 13) \<or> (28 \<le> n \<and> n \<le> 32) \<or> n = 133 \<or> n = 160)"

text \<open>
  \<^verbatim>\<open>s.split()\<close>: the maximal runs of characters that are not whitespace, in order.
  \<open>split_from cur s\<close> has read the characters \<open>cur\<close> of the current run.
\<close>

fun split_from :: "string \<Rightarrow> string \<Rightarrow> string list" where
  "split_from cur [] = (if cur = [] then [] else [cur])"
| "split_from cur (c # s) =
     (if is_space c then (if cur = [] then split_from [] s else cur # split_from [] s)
      else split_from (cur @ [c]) s)"

definition py_split :: "string \<Rightarrow> string list" where
  "py_split s = split_from [] s"

definition is_digit :: "char \<Rightarrow> bool" where
  "is_digit c = (let n = (of_char c :: nat) in 48 \<le> n \<and> n \<le> 57)"

definition digit_val :: "char \<Rightarrow> int" where
  "digit_val c = int (of_char c) - 48"

text \<open>
  \<^verbatim>\<open>int(s)\<close> on a string with no whitespace: an optional sign, then decimal digits, where
  one underscore may stand between two digits. \<open>None\<close> is \<^verbatim>\<open>ValueError\<close>, which Python also
  raises for more than 4300 digits (the default of \<^verbatim>\<open>sys.int_max_str_digits\<close>; the sign and
  the underscores do not count, leading zeros do).
  \<open>int_digits acc s\<close> continues after a digit, with the value \<open>acc\<close> read so far.
\<close>

definition max_str_digits :: nat where
  "max_str_digits = 4300"

fun int_digits :: "int \<Rightarrow> string \<Rightarrow> int option" where
  "int_digits acc [] = Some acc"
| "int_digits acc [c] = (if is_digit c then Some (acc * 10 + digit_val c) else None)"
| "int_digits acc (c # d # s) =
     (if is_digit c then int_digits (acc * 10 + digit_val c) (d # s)
      else if c = CHR ''_'' \<and> is_digit d then int_digits (acc * 10 + digit_val d) s
      else None)"

definition int_unsigned :: "string \<Rightarrow> int option" where
  "int_unsigned s =
     (case s of [] \<Rightarrow> None
      | c # t \<Rightarrow> if is_digit c then int_digits (digit_val c) t else None)"

definition py_int :: "string \<Rightarrow> int option" where
  "py_int s =
     (if max_str_digits < length (filter is_digit s) then None
      else (case s of [] \<Rightarrow> None
        | c # t \<Rightarrow>
            if c = CHR ''-'' then map_option uminus (int_unsigned t)
            else if c = CHR ''+'' then int_unsigned t
            else int_unsigned s))"

text \<open>\<^verbatim>\<open>s.replace('.', '')\<close>.\<close>

definition remove_dots :: "string \<Rightarrow> string" where
  "remove_dots s = filter (\<lambda>c. c \<noteq> CHR ''.'') s"

text \<open>\<^verbatim>\<open>str(n)\<close> for an integer, as an f-string renders it.\<close>

definition digit_char :: "nat \<Rightarrow> char" where
  "digit_char n = char_of (48 + n)"

fun str_nat :: "nat \<Rightarrow> string" where
  "str_nat n = (if n < 10 then [digit_char n] else str_nat (n div 10) @ [digit_char (n mod 10)])"

definition str_int :: "int \<Rightarrow> string" where
  "str_int i = (if i < 0 then CHR ''-'' # str_nat (nat (- i)) else str_nat (nat i))"

section \<open>The collaborators of the program\<close>

subsection \<open>The HTTP library and the provider\<close>

text \<open>
  A response of the \<^verbatim>\<open>requests\<close> library: \<open>response_json\<close> is what \<^verbatim>\<open>response.json()\<close>
  returns, \<open>None\<close> where the body is not JSON and the method raises.
\<close>

record response =
  status_code :: int
  response_text :: string
  response_json :: "json option"

text \<open>
  The exception a call can raise, by the handler of \<^verbatim>\<open>api_request\<close> that takes it: the
  handlers are tried in the order \<^verbatim>\<open>Timeout\<close>, \<^verbatim>\<open>ConnectionError\<close>, \<^verbatim>\<open>Exception\<close>.
\<close>

datatype request_error = Timeout | ConnectionError | OtherError

datatype outcome = Raises request_error | Returns response

text \<open>
  Modelled from the spec: the module \<^verbatim>\<open>api\<close> is not among the sources. The spec lists its
  operations, each a single HTTP round trip: obtain a bearer token, query the assigned number,
  request a new number, send a message, poll for one message. A call is one of the five
  functions the program calls, with the arguments of the call.
\<close>

datatype api_call =
    GetBearer json json
  | GetNumber json
  | NewNumber json
  | GetMessage json
  | SendMessage json json json

fun api_name :: "api_call \<Rightarrow> string" where
  "api_name (GetBearer k s) = ''get_bearer''"
| "api_name (GetNumber b) = ''get_number''"
| "api_name (NewNumber b) = ''new_number''"
| "api_name (GetMessage b) = ''get_message''"
| "api_name (SendMessage b d t) = ''send_message''"

text \<open>
  The truth value of a response, which \<^verbatim>\<open>not phone_number\<close> tests: \<^verbatim>\<open>requests\<close> takes a
  response for true unless its status is a client or server error.
\<close>

definition response_ok :: "response \<Rightarrow> bool" where
  "response_ok r = (\<not> (400 \<le> status_code r \<and> status_code r < 600))"

definition falsy :: "response option \<Rightarrow> bool" where
  "falsy p = (case p of None \<Rightarrow> True | Some r \<Rightarrow> \<not> response_ok r)"

text \<open>
  \<^verbatim>\<open>p.json()\<close> on what \<^verbatim>\<open>api_request\<close> returned: \<^verbatim>\<open>None\<close> has no such method, and a body
  that is not JSON raises a \<^verbatim>\<open>ValueError\<close>.
\<close>

definition json_of :: "response option \<Rightarrow> py_error + json" where
  "json_of p =
     (case p of None \<Rightarrow> Inl AttributeError
      | Some r \<Rightarrow> (case response_json r of None \<Rightarrow> Inl ValueError | Some j \<Rightarrow> Inr j))"

subsection \<open>Dates\<close>

record datetime =
  year :: nat
  month :: nat
  day :: nat
  hour :: nat
  minute :: nat
  second :: nat
  microsecond :: nat
  utcoffset :: "int option"

definition two_digits :: "nat \<Rightarrow> string" where
  "two_digits n = [digit_char (n div 10), digit_char (n mod 10)]"

text \<open>\<^verbatim>\<open>datetime.strftime(t, "%d/%m %H:%M:%S")\<close>.\<close>

definition strftime :: "datetime \<Rightarrow> string" where
  "strftime t =
     two_digits (day t) @ ''/'' @ two_digits (month t) @ '' '' @
     two_digits (hour t) @ '':'' @ two_digits (minute t) @ '':'' @ two_digits (second t)"

subsection \<open>Messages\<close>

text \<open>
  Modelled from the spec: the module \<^verbatim>\<open>message\<close> (the class \<^verbatim>\<open>Message\<close> and the enumeration
  \<^verbatim>\<open>MessageType\<close>) is not among the sources. The spec's data model gives a Message a direction,
  a sender, a destination, a text, an optional id and an optional timestamp; the constructor
  stores its arguments.
\<close>

datatype MessageType = INCOMING | OUTGOING

record message =
  msg_type :: MessageType
  sender :: json
  destination :: json
  message_text :: json
  msg_id :: json
  timestamp :: "datetime option"

subsection \<open>The file and the environment\<close>

text \<open>
  What \<^verbatim>\<open>keys.json\<close> can be when it is opened and read, by what \<^verbatim>\<open>open\<close> and \<^verbatim>\<open>json.load\<close>
  do with it: absent (\<^verbatim>\<open>FileNotFoundError\<close>); present but not to be opened, as a directory or a
  file without permission (another \<^verbatim>\<open>OSError\<close>); bytes that do not decode; text that the
  parser rejects with \<^verbatim>\<open>json.JSONDecodeError\<close> (\<open>Malformed\<close>); text with an integer of more than
  4300 digits, where the parser raises a plain \<^verbatim>\<open>ValueError\<close> whether the rest is well formed
  or not (\<open>Oversized\<close>); text nested too deep, where it raises \<^verbatim>\<open>RecursionError\<close> (\<open>TooDeep\<close>);
  or a document that \<^verbatim>\<open>json.load\<close> reads, given by the value it returns. Writing a value with
  \<^verbatim>\<open>json.dump\<close> leaves the document of that value.
\<close>

datatype file_state =
    Missing | Unreadable | Undecodable | Malformed | Oversized | TooDeep | Json json

text \<open>
  What the program runs against. \<open>provider\<close> gives the outcome of a call of the module
  \<^verbatim>\<open>api\<close> from the calls issued so far, the last of them being the call itself: the answer
  can depend on the request and on everything before. \<open>fromisoformat\<close> is the parser of the date
  library (\<open>None\<close> is its \<^verbatim>\<open>ValueError\<close>) and \<open>writable\<close> says whether \<^verbatim>\<open>keys.json\<close> can be
  opened for writing. \<open>item_text\<close> is what the GUI binding makes of a value that is not a
  string when it is given to \<^verbatim>\<open>QTableWidgetItem\<close>: the text of the item, or the exception
  the constructor raises (an integer selects the constructor that takes the type of the item
  and raises \<^verbatim>\<open>OverflowError\<close> outside 32 bits; most other values raise \<^verbatim>\<open>TypeError\<close>; what
  is taken for an integer depends on the version of the binding).
\<close>

record env =
  provider :: "api_call list \<Rightarrow> outcome"
  fromisoformat :: "string \<Rightarrow> datetime option"
  writable :: bool
  item_text :: "json \<Rightarrow> py_error + string"

section \<open>The application\<close>

datatype icon = Information | Warning | Critical

text \<open>The second argument of \<^verbatim>\<open>show_message\<close>: a string, or the exception object \<^verbatim>\<open>e\<close>.\<close>

datatype message_arg = Text string | ExceptionObject

text \<open>The label of the number: a fixed text, or \<^verbatim>\<open>Num: \<close> followed by the number.\<close>

datatype label = Label string | NumLabel json

text \<open>
  The fields of \<^verbatim>\<open>App\<close>, then what the program has put out (status bar, message boxes shown,
  lines on stderr with the caller and the response), the calls of the module \<^verbatim>\<open>api\<close> it has
  issued, in order, and the file \<^verbatim>\<open>keys.json\<close>. A row of the table has one optional text
  for each of its three columns.
\<close>

record world =
  bearer :: json
  phone_number :: json
  received_messages :: "message list"
  num_label :: label
  num_text :: string
  msg_text :: string
  msg_table :: "string option list list"
  keys :: json
  status :: string
  dialogs :: "(string \<times> string \<times> icon) list"
  stderr :: "(string \<times> response) list"
  trace :: "api_call list"
  keys_file :: file_state

text \<open>A method returns, or raises an exception past its caller; both leave a state.\<close>

datatype 'a res = Return 'a world | Raise py_error world

definition set_status :: "string \<Rightarrow> world \<Rightarrow> world" where
  "set_status m w = w\<lparr>status := m\<rparr>"

text \<open>
  \<^verbatim>\<open>show_message\<close>: \<^verbatim>\<open>setText\<close> takes a string only, so with an exception object the call
  raises \<^verbatim>\<open>TypeError\<close> before the box is shown.
\<close>

definition show_message :: "string \<Rightarrow> message_arg \<Rightarrow> icon \<Rightarrow> world \<Rightarrow> unit res" where
  "show_message title m ic w =
     (case m of
        Text s \<Rightarrow> Return () (w\<lparr>dialogs := dialogs w @ [(title, s, ic)]\<rparr>)
      | ExceptionObject \<Rightarrow> Raise TypeError w)"

subsection \<open>The credential store\<close>

text \<open>
  \<^verbatim>\<open>load_keys\<close> has two handlers: \<^verbatim>\<open>FileNotFoundError\<close> for a missing file and
  \<^verbatim>\<open>json.JSONDecodeError\<close> for text that the parser rejects. Any other exception of
  \<^verbatim>\<open>open\<close> or of \<^verbatim>\<open>json.load\<close> is not caught, a plain \<^verbatim>\<open>ValueError\<close> among them.
\<close>

definition load_keys :: "world \<Rightarrow> unit res" where
  "load_keys w =
     (case keys_file w of
        Json v \<Rightarrow> Return () (w\<lparr>keys := v\<rparr>)
      | Missing \<Rightarrow>
          show_message ''No existing keys.json file found''
            (Text ''Manually add keys and the program will create a new config file.'') Warning w
      | Malformed \<Rightarrow>
          show_message ''Error parsing keys.json''
            (Text ''Check that the file is formatted as per the example.'') Critical w
      | Unreadable \<Rightarrow> Raise OSError w
      | Undecodable \<Rightarrow> Raise UnicodeDecodeError w
      | Oversized \<Rightarrow> Raise ValueError w
      | TooDeep \<Rightarrow> Raise RecursionError w)"

text \<open>
  \<^verbatim>\<open>save_keys\<close>: the handler of a failed write passes the exception object to \<^verbatim>\<open>show_message\<close>.
  A write that starts and is cut short is not modelled.
\<close>

definition save_keys :: "env \<Rightarrow> world \<Rightarrow> unit res" where
  "save_keys E w =
     (if writable E then Return () (w\<lparr>keys_file := Json (keys w)\<rparr>)
      else show_message ''Could not write to keys.json file'' ExceptionObject Critical w)"

text \<open>\<^verbatim>\<open>__init__\<close> and \<^verbatim>\<open>init_ui\<close>: the fields before \<^verbatim>\<open>load_keys\<close> runs, with the file found.\<close>

definition initial_world :: "file_state \<Rightarrow> world" where
  "initial_world f =
     \<lparr>bearer = JNull, phone_number = JNull, received_messages = [], num_label = Label [],
      num_text = [], msg_text = [], msg_table = [], keys = JArr [], status = [],
      dialogs = [], stderr = [], trace = [], keys_file = f\<rparr>"

definition init_ui :: "world \<Rightarrow> world" where
  "init_ui w = (set_status ''Ready'' w)\<lparr>num_label := Label ''Num: N/A (request token)''\<rparr>"

definition App_init :: "file_state \<Rightarrow> unit res" where
  "App_init f =
     (case load_keys (initial_world f) of
        Raise e w \<Rightarrow> Raise e w
      | Return u w \<Rightarrow> Return () (init_ui w))"

subsection \<open>Calling the provider\<close>

text \<open>
  \<^verbatim>\<open>api_request\<close>: the call is issued, then its outcome is classified. The handler of
  \<^verbatim>\<open>Exception\<close> passes the exception object to \<^verbatim>\<open>show_message\<close>.
\<close>

definition api_request :: "env \<Rightarrow> api_call \<Rightarrow> world \<Rightarrow> response option res" where
  "api_request E c w =
     (let w1 = w\<lparr>trace := trace w @ [c]\<rparr> in
      case provider E (trace w1) of
        Returns r \<Rightarrow> Return (Some r) w1
      | Raises x \<Rightarrow>
         (case (case x of
                  Timeout \<Rightarrow>
                    show_message ''Request timed out''
                      (Text ''Check connection and try again'') Critical w1
                | ConnectionError \<Rightarrow>
                    show_message ''Network problem''
                      (Text ''Check connection and try again'') Critical w1
                | OtherError \<Rightarrow>
                    show_message (''Error calling '' @ api_name c @ '', report bug'')
                      ExceptionObject Critical w1) of
            Raise e w2 \<Rightarrow> Raise e w2
          | Return u w2 \<Rightarrow> Return None w2))"

definition check_response :: "string \<Rightarrow> response option \<Rightarrow> int \<Rightarrow> world \<Rightarrow> bool \<times> world" where
  "check_response caller p success_code w =
     (case p of
        None \<Rightarrow> (False, w)
      | Some r \<Rightarrow>
          if status_code r = success_code then (True, w)
          else (False,
            (set_status (''Request method '' @ caller @ '' failed with code '' @
                str_int (status_code r) @ '', check logs'') w)
              \<lparr>stderr := stderr w @ [(caller, r)]\<rparr>))"

subsection \<open>Choosing a key and requesting the bearer\<close>

text \<open>\<^verbatim>\<open>k.get('number')\<close>: a method of a dict only.\<close>

fun py_get :: "json \<Rightarrow> string \<Rightarrow> py_error + json" where
  "py_get (JObj d) k = Inr (case map_of d k of None \<Rightarrow> JNull | Some v \<Rightarrow> v)"
| "py_get _ k = Inl AttributeError"

text \<open>
  The list of the dialog (lines 177 to 181): the entries that have a key and a secret, each
  with its position counted from 1, its number and its key, which the f-string renders.
  An entry that is filtered out gives \<open>None\<close>.
\<close>

definition key_item :: "nat \<Rightarrow> json \<Rightarrow> py_error + (nat \<times> json \<times> json) option" where
  "key_item i k =
     (case contains_str ''key'' k of
        Inl e \<Rightarrow> Inl e
      | Inr has_key \<Rightarrow>
          if \<not> has_key then Inr None
          else (case contains_str ''secret'' k of
             Inl e \<Rightarrow> Inl e
           | Inr has_secret \<Rightarrow>
               if \<not> has_secret then Inr None
               else (case py_get k ''number'' of
                  Inl e \<Rightarrow> Inl e
                | Inr n \<Rightarrow>
                   (case getitem_str k ''key'' of
                      Inl e \<Rightarrow> Inl e
                    | Inr key \<Rightarrow> Inr (Some (i, n, key))))))"

fun key_items_from :: "nat \<Rightarrow> json list \<Rightarrow> py_error + (nat \<times> json \<times> json) list" where
  "key_items_from i [] = Inr []"
| "key_items_from i (k # ks) =
     (case key_item i k of
        Inl e \<Rightarrow> Inl e
      | Inr it \<Rightarrow>
         (case key_items_from (Suc i) ks of
            Inl e \<Rightarrow> Inl e
          | Inr its \<Rightarrow> Inr (case it of None \<Rightarrow> its | Some x \<Rightarrow> x # its)))"

definition key_items :: "json \<Rightarrow> py_error + (nat \<times> json \<times> json) list" where
  "key_items ks = (case py_iter ks of Inl e \<Rightarrow> Inl e | Inr xs \<Rightarrow> key_items_from 1 xs)"

text \<open>
  Lines 187 to 196: what the text of the dialog stands for. Two words are a new pair, checked
  for its lengths; any other text starts with the position of an entry of \<^verbatim>\<open>self.keys\<close>.
  The result is \<open>Invalid\<close> for a pair of the wrong lengths, else \<^verbatim>\<open>key_index\<close>, the key and the
  secret.
\<close>

datatype selection = Invalid | Selected int json json

definition select_key :: "json \<Rightarrow> string \<Rightarrow> py_error + selection" where
  "select_key ks chosen =
     (let parts = py_split chosen in
      if length parts = 2 then
        (let key = parts ! 0; secret = parts ! 1 in
         if length key \<noteq> 32 \<or> length secret \<noteq> 16 then Inr Invalid
         else Inr (Selected (- 1) (JStr key) (JStr secret)))
      else
        (case parts of
           [] \<Rightarrow> Inl IndexError
         | p # ps \<Rightarrow>
            (case py_int (remove_dots p) of
               None \<Rightarrow> Inl ValueError
             | Some n \<Rightarrow>
                (let key_index = n - 1 in
                 case getitem_int ks key_index of
                   Inl e \<Rightarrow> Inl e
                 | Inr entry \<Rightarrow>
                    (case getitem_str entry ''key'' of
                       Inl e \<Rightarrow> Inl e
                     | Inr key \<Rightarrow>
                        (case getitem_str entry ''secret'' of
                           Inl e \<Rightarrow> Inl e
                         | Inr secret \<Rightarrow> Inr (Selected key_index key secret)))))))"

text \<open>
  Lines 203 to 210: the number of the bearer. \<^verbatim>\<open>get_number\<close> is asked first; when its result
  is false, a box is shown and \<^verbatim>\<open>new_number\<close> is asked. The number is then read from the
  last result.
\<close>

definition resolve_number :: "env \<Rightarrow> world \<Rightarrow> unit res" where
  "resolve_number E w =
     (case api_request E (GetNumber (bearer w)) w of
        Raise e w1 \<Rightarrow> Raise e w1
      | Return p w1 \<Rightarrow>
         (case (if falsy p then
                  (case show_message ''No number''
                          (Text ''This bearer has no number associated. Will request a new one.'')
                          Information w1 of
                     Raise e w2 \<Rightarrow> Raise e w2
                   | Return u w2 \<Rightarrow> api_request E (NewNumber (bearer w2)) w2)
                else Return p w1) of
            Raise e w3 \<Rightarrow> Raise e w3
          | Return q w3 \<Rightarrow>
             (case json_of q of
                Inl e \<Rightarrow> Raise e w3
              | Inr j \<Rightarrow>
                 (case getitem_str j ''destinationAddress'' of
                    Inl e \<Rightarrow> Raise e w3
                  | Inr n \<Rightarrow> Return () (w3\<lparr>phone_number := n\<rparr>)))))"

text \<open>\<^verbatim>\<open>ks[i]['number'] = v\<close>: the entry at \<open>i\<close> is changed in place.\<close>

definition set_number :: "json \<Rightarrow> int \<Rightarrow> json \<Rightarrow> py_error + json" where
  "set_number ks i v =
     (case getitem_int ks i of
        Inl e \<Rightarrow> Inl e
      | Inr entry \<Rightarrow>
         (case setitem_str entry ''number'' v of
            Inl e \<Rightarrow> Inl e
          | Inr entry' \<Rightarrow>
             (case ks of
                JArr xs \<Rightarrow>
                 (case py_index (length xs) i of
                    None \<Rightarrow> Inl IndexError
                  | Some j \<Rightarrow> Inr (JArr (xs[j := entry'])))
              | _ \<Rightarrow> Inl TypeError)))"

text \<open>
  Lines 212 to 219: a pair that was typed (\<^verbatim>\<open>key_index\<close> is -1) is appended as a new entry,
  the number is stored in the entry at \<^verbatim>\<open>key_index\<close>, the keys are saved and the label is set.
\<close>

definition store_number :: "env \<Rightarrow> int \<Rightarrow> json \<Rightarrow> json \<Rightarrow> world \<Rightarrow> unit res" where
  "store_number E key_index key secret w =
     (case (if key_index = - 1 then
              (case py_len (keys w) of
                 Inl e \<Rightarrow> Inl e
               | Inr n \<Rightarrow>
                  (case py_append (keys w) (JObj [(''key'', key), (''secret'', secret)]) of
                     Inl e \<Rightarrow> Inl e
                   | Inr ks \<Rightarrow> Inr (int n, ks)))
            else Inr (key_index, keys w)) of
        Inl e \<Rightarrow> Raise e w
      | Inr (i, ks) \<Rightarrow>
         (case set_number ks i (phone_number w) of
            Inl e \<Rightarrow> Raise e (w\<lparr>keys := ks\<rparr>)
          | Inr ks' \<Rightarrow>
             (case save_keys E (w\<lparr>keys := ks'\<rparr>) of
                Raise e w1 \<Rightarrow> Raise e w1
              | Return u w1 \<Rightarrow> Return () (w1\<lparr>num_label := NumLabel (phone_number w1)\<rparr>))))"

text \<open>Lines 198 to 219.\<close>

definition request_bearer :: "env \<Rightarrow> int \<Rightarrow> json \<Rightarrow> json \<Rightarrow> world \<Rightarrow> unit res" where
  "request_bearer E key_index key secret w =
     (case api_request E (GetBearer key secret) w of
        Raise e w1 \<Rightarrow> Raise e w1
      | Return p w1 \<Rightarrow>
         (case check_response ''choose_bearer'' p 200 w1 of
            (False, w2) \<Rightarrow> Return () w2
          | (True, w2) \<Rightarrow>
             (case json_of p of
                Inl e \<Rightarrow> Raise e w2
              | Inr j \<Rightarrow>
                 (case getitem_str j ''access_token'' of
                    Inl e \<Rightarrow> Raise e w2
                  | Inr tok \<Rightarrow>
                     (case resolve_number E
                             (set_status ''Success! Token valid for one hour''
                                (w2\<lparr>bearer := tok\<rparr>)) of
                        Raise e w3 \<Rightarrow> Raise e w3
                      | Return u w3 \<Rightarrow> store_number E key_index key secret w3)))))"

text \<open>
  \<^verbatim>\<open>choose_bearer\<close>: \<open>chosen\<close> and \<open>ok_pressed\<close> are the answer of the dialog, whose line can be
  edited, so \<open>chosen\<close> is any text.
\<close>

definition choose_bearer :: "env \<Rightarrow> string \<Rightarrow> bool \<Rightarrow> world \<Rightarrow> unit res" where
  "choose_bearer E chosen ok_pressed w =
     (case key_items (keys w) of
        Inl e \<Rightarrow> Raise e w
      | Inr items \<Rightarrow>
          if \<not> (chosen \<noteq> [] \<and> ok_pressed) then Return () w
          else (case select_key (keys w) chosen of
             Inl e \<Rightarrow> Raise e w
           | Inr Invalid \<Rightarrow>
               show_message ''Invalid key''
                 (Text ''Key must be of length 32 & secret of length 16.'') Critical w
           | Inr (Selected key_index key secret) \<Rightarrow> request_bearer E key_index key secret w))"

subsection \<open>Receiving\<close>

text \<open>Lines 233 to 241: the message of a response \<open>j\<close>; the timestamp is parsed first.\<close>

definition incoming_message :: "env \<Rightarrow> json \<Rightarrow> json \<Rightarrow> py_error + message" where
  "incoming_message E phone j =
     (case getitem_str j ''sentTimestamp'' of
        Inl e \<Rightarrow> Inl e
      | Inr ts \<Rightarrow>
         (case (case ts of
                  JStr s \<Rightarrow> (case fromisoformat E s of None \<Rightarrow> Inl ValueError | Some t \<Rightarrow> Inr t)
                | _ \<Rightarrow> Inl TypeError) of
            Inl e \<Rightarrow> Inl e
          | Inr time \<Rightarrow>
             (case getitem_str j ''senderAddress'' of
                Inl e \<Rightarrow> Inl e
              | Inr a \<Rightarrow>
                 (case getitem_str j ''message'' of
                    Inl e \<Rightarrow> Inl e
                  | Inr t \<Rightarrow>
                     (case getitem_str j ''messageId'' of
                        Inl e \<Rightarrow> Inl e
                      | Inr i \<Rightarrow>
                          Inr \<lparr>msg_type = INCOMING, sender = a, destination = phone,
                               message_text = t, msg_id = i, timestamp = Some time\<rparr>)))))"

text \<open>
  \<^verbatim>\<open>QTableWidgetItem(x)\<close>: the text of the item. A string is the text; any other value is
  left to the binding.
\<close>

definition table_item :: "env \<Rightarrow> json \<Rightarrow> py_error + string" where
  "table_item E x =
     (case x of
        JStr s \<Rightarrow> Inr s
      | _ \<Rightarrow> item_text E x)"

definition setRowCount :: "nat \<Rightarrow> string option list list \<Rightarrow> string option list list" where
  "setRowCount n rows = take n rows @ replicate (n - length rows) [None, None, None]"

definition setItem :: "nat \<Rightarrow> nat \<Rightarrow> string \<Rightarrow> string option list list \<Rightarrow> string option list list" where
  "setItem i c s rows = (if i < length rows then rows[i := (rows ! i)[c := Some s]] else rows)"

text \<open>Lines 244 to 254: the row of the message that was appended last.\<close>

definition show_row :: "env \<Rightarrow> message \<Rightarrow> world \<Rightarrow> unit res" where
  "show_row E m w =
     (let i = length (received_messages w) - 1;
          w1 = w\<lparr>msg_table := setRowCount (i + 1) (msg_table w)\<rparr> in
      case table_item E (sender m) of
        Inl e \<Rightarrow> Raise e w1
      | Inr s \<Rightarrow>
         (let w2 = w1\<lparr>msg_table := setItem i 0 s (msg_table w1)\<rparr> in
          case timestamp m of
            None \<Rightarrow> Raise TypeError w2
          | Some t \<Rightarrow>
             (let w3 = w2\<lparr>msg_table := setItem i 1 (strftime t) (msg_table w2)\<rparr> in
              case table_item E (message_text m) of
                Inl e \<Rightarrow> Raise e w3
              | Inr x \<Rightarrow> Return () (w3\<lparr>msg_table := setItem i 2 x (msg_table w3)\<rparr>))))"

text \<open>
  One turn of the loop of \<^verbatim>\<open>get_message\<close> (lines 227 to 254): the loop goes on, is left by
  \<^verbatim>\<open>break\<close>, or is left by an exception.
\<close>

datatype turn = Again world | Break world | Abort py_error world

definition poll_once :: "env \<Rightarrow> world \<Rightarrow> turn" where
  "poll_once E w =
     (case api_request E (GetMessage (bearer w)) w of
        Raise e w1 \<Rightarrow> Abort e w1
      | Return p w1 \<Rightarrow>
         (case check_response ''get_message'' p 200 w1 of
            (False, w2) \<Rightarrow> Again w2
          | (True, w2) \<Rightarrow>
             (case json_of p of
                Inl e \<Rightarrow> Abort e w2
              | Inr j \<Rightarrow>
                 (case getitem_str j ''status'' of
                    Inl e \<Rightarrow> Abort e w2
                  | Inr st \<Rightarrow>
                      if st = JStr ''EMPTY'' then Break w2
                      else (case incoming_message E (phone_number w2) j of
                         Inl e \<Rightarrow> Abort e w2
                       | Inr m \<Rightarrow>
                          (case show_row E m
                                  (w2\<lparr>received_messages := received_messages w2 @ [m]\<rparr>) of
                             Raise e w3 \<Rightarrow> Abort e w3
                           | Return u w3 \<Rightarrow> Again w3))))))"

text \<open>The loop \<^verbatim>\<open>while True\<close>: \<open>None\<close> where it runs for ever.\<close>

partial_function (option) poll_loop :: "env \<Rightarrow> world \<Rightarrow> unit res option" where
  "poll_loop E w =
     (case poll_once E w of
        Again w1 \<Rightarrow> poll_loop E w1
      | Break w1 \<Rightarrow> Some (Return () w1)
      | Abort e w1 \<Rightarrow> Some (Raise e w1))"

declare poll_loop.simps [code]

definition get_message :: "env \<Rightarrow> world \<Rightarrow> unit res option" where
  "get_message E w =
     (if bearer w = JNull then Some (Return () (set_status ''Request bearer first'' w))
      else (case poll_loop E (set_status ''Fetching messages...'' w) of
         None \<Rightarrow> None
       | Some (Raise e w1) \<Rightarrow> Some (Raise e w1)
       | Some (Return u w1) \<Rightarrow> Some (Return () (set_status ''Fetched all messages'' w1))))"

subsection \<open>Sending\<close>

text \<open>
  Lines 261 to 266: the message of the two input fields. Its destination is the text of
  \<^verbatim>\<open>num_text\<close>, which the status line of \<^verbatim>\<open>send_message\<close> shows.
\<close>

definition outgoing_message :: "world \<Rightarrow> message" where
  "outgoing_message w =
     \<lparr>msg_type = OUTGOING, sender = phone_number w, destination = JStr (num_text w),
      message_text = JStr (msg_text w), msg_id = JNull, timestamp = None\<rparr>"

definition send_message :: "env \<Rightarrow> world \<Rightarrow> unit res" where
  "send_message E w =
     (if bearer w = JNull then Return () (set_status ''Request bearer first'' w)
      else
       (let message = outgoing_message w in
        case py_len (destination message) of
          Inl e \<Rightarrow> Raise e w
        | Inr n \<Rightarrow>
            if n = 0 then Return () (set_status ''Number cannot be blank'' w)
            else (case py_len (message_text message) of
               Inl e \<Rightarrow> Raise e w
             | Inr l \<Rightarrow>
                 if l = 0 then Return () (set_status ''Message cannot be blank'' w)
                 else
                  (case api_request E
                          (SendMessage (bearer w) (destination message) (message_text message))
                          (set_status (''Sending message to '' @ num_text w) w) of
                     Raise e w1 \<Rightarrow> Raise e w1
                   | Return p w1 \<Rightarrow>
                      (case check_response ''send_message'' p 201 w1 of
                         (True, w2) \<Rightarrow>
                           Return ()
                             ((set_status ''Request to send message successful'' w2)
                                \<lparr>num_text := [], msg_text := []\<rparr>)
                       | (False, w2) \<Rightarrow>
                           Return () (set_status ''Request to send message failed'' w2))))))"

text \<open>The state a method leaves, and the exception it raised.\<close>

fun world_of :: "'a res \<Rightarrow> world" where
  "world_of (Return x w) = w"
| "world_of (Raise e w) = w"

fun raised :: "'a res \<Rightarrow> py_error option" where
  "raised (Return x w) = None"
| "raised (Raise e w) = Some e"

section \<open>The vocabulary of the properties\<close>

subsection \<open>Answers of the provider\<close>

text \<open>
  The answer to \<^verbatim>\<open>get_bearer\<close> that grants the token \<open>tok\<close>: status 200 and a JSON body with
  the field \<^verbatim>\<open>access_token\<close>.
\<close>

definition grants_token :: "outcome \<Rightarrow> json \<Rightarrow> bool" where
  "grants_token o1 tok =
     (case o1 of
        Raises x \<Rightarrow> False
      | Returns r \<Rightarrow>
          status_code r = 200 \<and>
          (case response_json r of
             None \<Rightarrow> False
           | Some j \<Rightarrow> getitem_str j ''access_token'' = Inr tok))"

text \<open>
  The result of \<^verbatim>\<open>get_number\<close> as the test \<^verbatim>\<open>not phone_number\<close> sees it. It is true for a
  response without an error status (\<open>assigned\<close>). It is false (\<open>unassigned\<close>) for a response
  with an error status, and also when the request timed out or met a network problem, where
  \<^verbatim>\<open>api_request\<close> returns \<^verbatim>\<open>None\<close>. An unexpected exception is neither: no result comes
  back at all.
\<close>

definition assigned :: "outcome \<Rightarrow> bool" where
  "assigned o1 = (case o1 of Raises x \<Rightarrow> False | Returns r \<Rightarrow> response_ok r)"

definition unassigned :: "outcome \<Rightarrow> bool" where
  "unassigned o1 =
     (case o1 of
        Raises x \<Rightarrow> (case x of Timeout \<Rightarrow> True | ConnectionError \<Rightarrow> True | OtherError \<Rightarrow> False)
      | Returns r \<Rightarrow> \<not> response_ok r)"

text \<open>A response whose JSON body has the number \<open>n\<close> in the field \<^verbatim>\<open>destinationAddress\<close>.\<close>

definition carries_number :: "outcome \<Rightarrow> json \<Rightarrow> bool" where
  "carries_number o1 n =
     (case o1 of
        Raises x \<Rightarrow> False
      | Returns r \<Rightarrow>
         (case response_json r of
            None \<Rightarrow> False
          | Some j \<Rightarrow> getitem_str j ''destinationAddress'' = Inr n))"

text \<open>
  The answer to a poll that carries a message, told from the response alone: status 200 and
  a JSON object with a status field other than the empty marker, the sender \<open>a\<close> and the text
  \<open>t\<close> (both strings), the id \<open>i\<close>, and a timestamp that parses to \<open>time\<close>.
\<close>

definition carries_message :: "env \<Rightarrow> outcome \<Rightarrow> string \<Rightarrow> string \<Rightarrow> json \<Rightarrow> datetime \<Rightarrow> bool" where
  "carries_message E o1 a t i time =
     (case o1 of
        Raises x \<Rightarrow> False
      | Returns r \<Rightarrow>
          status_code r = 200 \<and>
          (case response_json r of
             Some (JObj d) \<Rightarrow>
               (case map_of d ''status'' of
                  None \<Rightarrow> False
                | Some st \<Rightarrow> st \<noteq> JStr ''EMPTY'') \<and>
               map_of d ''senderAddress'' = Some (JStr a) \<and>
               map_of d ''message'' = Some (JStr t) \<and>
               map_of d ''messageId'' = Some i \<and>
               (case map_of d ''sentTimestamp'' of
                  Some (JStr s) \<Rightarrow> fromisoformat E s = Some time
                | _ \<Rightarrow> False)
           | _ \<Rightarrow> False))"

text \<open>
  The Message of the specification for such a delivery to the session with the number
  \<open>phone\<close>: incoming, from the sender to the session, with the text, the id and the time.
\<close>

definition delivered :: "json \<Rightarrow> string \<Rightarrow> string \<Rightarrow> json \<Rightarrow> datetime \<Rightarrow> message" where
  "delivered phone a t i time =
     \<lparr>msg_type = INCOMING, sender = JStr a, destination = phone, message_text = JStr t,
      msg_id = i, timestamp = Some time\<rparr>"

text \<open>The empty marker: status 200 and a JSON object with the status field \<^verbatim>\<open>EMPTY\<close>.\<close>

definition empty_marker :: "outcome \<Rightarrow> bool" where
  "empty_marker o1 =
     (case o1 of
        Raises x \<Rightarrow> False
      | Returns r \<Rightarrow>
          status_code r = 200 \<and>
          (case response_json r of
             Some (JObj d) \<Rightarrow> map_of d ''status'' = Some (JStr ''EMPTY'')
           | _ \<Rightarrow> False))"

text \<open>
  A poll that fails: a timeout or a network problem, after which \<^verbatim>\<open>api_request\<close> returns no
  result, or a response with a status other than 200.
\<close>

definition poll_fails :: "outcome \<Rightarrow> bool" where
  "poll_fails o1 =
     (case o1 of
        Raises x \<Rightarrow> (case x of Timeout \<Rightarrow> True | ConnectionError \<Rightarrow> True | OtherError \<Rightarrow> False)
      | Returns r \<Rightarrow> status_code r \<noteq> 200)"

fun turn_world :: "turn \<Rightarrow> world" where
  "turn_world (Again w) = w"
| "turn_world (Break w) = w"
| "turn_world (Abort e w) = w"

text \<open>
  What holds of the result \<open>r\<close> of the loop started in \<open>w\<close>: the session is the same, polls
  were the only calls, the messages appended are incoming ones addressed to the session, a
  normal end follows the empty marker, and an exception follows a poll that neither failed nor
  brought the empty marker.
\<close>

definition poll_inv :: "env \<Rightarrow> world \<Rightarrow> unit res \<Rightarrow> bool" where
  "poll_inv E w r =
     (phone_number (world_of r) = phone_number w \<and> bearer (world_of r) = bearer w \<and>
      keys (world_of r) = keys w \<and> keys_file (world_of r) = keys_file w \<and>
      (\<exists>n. trace (world_of r) = trace w @ replicate (Suc n) (GetMessage (bearer w))) \<and>
      (\<exists>ms. received_messages (world_of r) = received_messages w @ ms \<and>
            list_all (\<lambda>m. msg_type m = INCOMING \<and> destination m = phone_number w) ms) \<and>
      (raised r = None \<longrightarrow> empty_marker (provider E (trace (world_of r)))) \<and>
      (raised r \<noteq> None \<longrightarrow>
         \<not> poll_fails (provider E (trace (world_of r))) \<and>
         \<not> empty_marker (provider E (trace (world_of r)))))"

subsection \<open>The words of the specification\<close>

text \<open>
  The upsert of the specification: a pair that was typed gets a new entry, else the number
  field of the entry at position \<open>i\<close> is updated.
\<close>

definition set_field :: "string \<Rightarrow> json \<Rightarrow> json \<Rightarrow> json" where
  "set_field k v e = (case setitem_str e k v of Inl err \<Rightarrow> e | Inr e' \<Rightarrow> e')"

definition spec_upsert :: "bool \<Rightarrow> nat \<Rightarrow> json \<Rightarrow> json \<Rightarrow> json \<Rightarrow> json list \<Rightarrow> json list" where
  "spec_upsert typed i key secret n xs =
     (if typed then xs @ [JObj [(''key'', key), (''secret'', secret), (''number'', n)]]
      else xs[i := set_field ''number'' n (xs ! i)])"

text \<open>
  A valid Credential Entry of the specification: a key of 32 characters, a secret of 16, and
  a number that is a string when there is one.
\<close>

definition valid_entry :: "json \<Rightarrow> bool" where
  "valid_entry e =
     (case e of
        JObj d \<Rightarrow>
          distinct (map fst d) \<and>
          list_all (\<lambda>k. k = ''key'' \<or> k = ''secret'' \<or> k = ''number'') (map fst d) \<and>
          (case map_of d ''key'' of Some (JStr k) \<Rightarrow> length k = 32 | _ \<Rightarrow> False) \<and>
          (case map_of d ''secret'' of Some (JStr x) \<Rightarrow> length x = 16 | _ \<Rightarrow> False) \<and>
          (case map_of d ''number'' of None \<Rightarrow> True | Some (JStr n) \<Rightarrow> True | Some _ \<Rightarrow> False)
      | _ \<Rightarrow> False)"

definition valid_entries :: "json \<Rightarrow> bool" where
  "valid_entries ks = (case ks of JArr xs \<Rightarrow> list_all valid_entry xs | _ \<Rightarrow> False)"

text \<open>
  The invariant of the specification for a message of the session with the number \<open>phone\<close>:
  exactly one of sender and destination is the number, and it is the side of the direction.
\<close>

definition side_of_direction :: "json \<Rightarrow> message \<Rightarrow> bool" where
  "side_of_direction phone m =
     (case msg_type m of OUTGOING \<Rightarrow> sender m = phone | INCOMING \<Rightarrow> destination m = phone)"

definition spec_invariant :: "json \<Rightarrow> message \<Rightarrow> bool" where
  "spec_invariant phone m =
     ((sender m = phone) \<noteq> (destination m = phone) \<and> side_of_direction phone m)"

subsection \<open>Sample data\<close>

definition sample_key :: string where
  "sample_key = ''0123456789abcdef0123456789abcdef''"

definition sample_secret :: string where
  "sample_secret = ''0123456789abcdef''"

definition sample_time :: datetime where
  "sample_time =
     \<lparr>year = 2019, month = 7, day = 1, hour = 10, minute = 30, second = 0, microsecond = 0,
      utcoffset = None\<rparr>"

definition sample_json :: "int \<Rightarrow> json \<Rightarrow> response" where
  "sample_json code j = \<lparr>status_code = code, response_text = [], response_json = Some j\<rparr>"

definition sample_body :: json where
  "sample_body =
     JObj [(''status'', JStr ''RECEIVED''), (''senderAddress'', JStr ''+61400000002''),
           (''message'', JStr ''hello''), (''messageId'', JStr ''m1''),
           (''sentTimestamp'', JStr ''2019-07-01T10:30:00'')]"

definition sample_message :: message where
  "sample_message =
     \<lparr>msg_type = INCOMING, sender = JStr ''+61400000002'', destination = JStr ''+61400000001'',
      message_text = JStr ''hello'', msg_id = JStr ''m1'', timestamp = Some sample_time\<rparr>"

definition is_poll :: "api_call \<Rightarrow> bool" where
  "is_poll c = (case c of GetMessage b \<Rightarrow> True | _ \<Rightarrow> False)"

text \<open>
  A provider for the examples. It grants a token, answers \<^verbatim>\<open>get_number\<close> with \<open>o1\<close>, gives
  a number on \<^verbatim>\<open>new_number\<close>, accepts a message to send, and delivers the same message on
  the first two polls, then the empty marker.
\<close>

definition sample_provider :: "outcome \<Rightarrow> api_call list \<Rightarrow> outcome" where
  "sample_provider o1 t =
     (case rev t of
        [] \<Rightarrow> Raises OtherError
      | c # cs \<Rightarrow>
         (case c of
            GetBearer k s \<Rightarrow> Returns (sample_json 200 (JObj [(''access_token'', JStr ''token'')]))
          | GetNumber b \<Rightarrow> o1
          | NewNumber b \<Rightarrow>
              Returns (sample_json 201 (JObj [(''destinationAddress'', JStr ''+61400000001'')]))
          | GetMessage b \<Rightarrow>
              if length (filter is_poll t) \<le> 2 then Returns (sample_json 200 sample_body)
              else Returns (sample_json 200 (JObj [(''status'', JStr ''EMPTY'')]))
          | SendMessage b d x \<Rightarrow> Returns (sample_json 201 (JObj []))))"

definition sample_env :: "outcome \<Rightarrow> env" where
  "sample_env o1 =
     \<lparr>provider = sample_provider o1,
      fromisoformat = (\<lambda>s. if s = ''2019-07-01T10:30:00'' then Some sample_time else None),
      writable = True, item_text = (\<lambda>x. Inl TypeError)\<rparr>"

text \<open>An environment where every call times out.\<close>

definition offline_env :: env where
  "offline_env =
     \<lparr>provider = (\<lambda>t. Raises Timeout), fromisoformat = (\<lambda>s. None), writable = True,
      item_text = (\<lambda>x. Inl TypeError)\<rparr>"

text \<open>An environment where every call is answered with status 200 and an empty JSON object.\<close>

definition bare_env :: env where
  "bare_env =
     \<lparr>provider = (\<lambda>t. Returns (sample_json 200 (JObj []))), fromisoformat = (\<lambda>s. None),
      writable = True, item_text = (\<lambda>x. Inl TypeError)\<rparr>"

text \<open>A session that has its bearer and its number.\<close>

definition sample_session :: world where
  "sample_session =
     (initial_world Missing)\<lparr>bearer := JStr ''token'', phone_number := JStr ''+61400000001''\<rparr>"

text \<open>The answer of \<^verbatim>\<open>get_number\<close> for a bearer without a number.\<close>

definition not_found :: outcome where
  "not_found = Returns \<lparr>status_code = 404, response_text = [], response_json = None\<rparr>"

text \<open>A store with one entry whose key and secret are too short.\<close>

definition short_key_world :: world where
  "short_key_world =
     (initial_world Missing)\<lparr>keys := JArr [JObj [(''key'', JStr ''abc''), (''secret'', JStr ''def'')]]\<rparr>"

text \<open>A store with one valid entry.\<close>

definition stored_world :: world where
  "stored_world =
     (initial_world Missing)\<lparr>keys :=
        JArr [JObj [(''key'', JStr sample_key), (''secret'', JStr sample_secret)]]\<rparr>"

text \<open>The session about to send a message to its own number.\<close>

definition own_number_world :: world where
  "own_number_world = sample_session\<lparr>num_text := ''+61400000001'', msg_text := ''hello''\<rparr>"

text \<open>The sample session after it has polled the sample provider.\<close>

definition sample_polled :: world where
  "sample_polled =
     sample_session\<lparr>received_messages := [sample_message, sample_message],
        msg_table := [[Some ''+61400000002'', Some ''01/07 10:30:00'', Some ''hello''],
                      [Some ''+61400000002'', Some ''01/07 10:30:00'', Some ''hello'']],
        status := ''Fetched all messages'',
        trace := [GetMessage (JStr ''token''), GetMessage (JStr ''token''),
                  GetMessage (JStr ''token'')]\<rparr>"

section \<open>Lemmas\<close>

subsection \<open>The bearer workflow\<close>

lemma resolve_number_result:
  assumes o1: "o1 = provider E (trace w @ [GetNumber (bearer w)])"
    and kind: "assigned o1 \<or> unassigned o1"
    and num: "carries_number
       (if assigned o1 then o1
        else provider E (trace w @ [GetNumber (bearer w), NewNumber (bearer w)])) n"
  shows "\<exists>w'. resolve_number E w = Return () w' \<and>
           trace w' = trace w @ [GetNumber (bearer w)] @
              (if unassigned o1 then [NewNumber (bearer w)] else []) \<and>
           phone_number w' = n \<and> keys w' = keys w \<and> keys_file w' = keys_file w \<and>
           bearer w' = bearer w"
proof (cases o1)
  case (Returns r)
  show ?thesis
  proof (cases "response_ok r")
    case True
    with Returns o1 num show ?thesis
      by (auto simp add: resolve_number_def api_request_def falsy_def json_of_def assigned_def
          unassigned_def carries_number_def split: option.splits)
  next
    case False
    with Returns o1 num show ?thesis
      by (auto simp add: resolve_number_def api_request_def falsy_def json_of_def assigned_def
          unassigned_def carries_number_def show_message_def split: option.splits outcome.splits)
  qed
next
  case (Raises x)
  with o1 num kind show ?thesis
    by (cases x)
      (auto simp add: resolve_number_def api_request_def falsy_def json_of_def assigned_def
          unassigned_def carries_number_def show_message_def split: option.splits outcome.splits)
qed

lemma store_number_fresh:
  assumes "keys w = JArr xs" and "writable E"
  shows "store_number E (- 1) key secret w =
     Return () (w\<lparr>keys := JArr (xs @
          [JObj [(''key'', key), (''secret'', secret), (''number'', phone_number w)]]),
        keys_file := Json (JArr (xs @
          [JObj [(''key'', key), (''secret'', secret), (''number'', phone_number w)]])),
        num_label := NumLabel (phone_number w)\<rparr>)"
  using assms
  by (simp add: store_number_def set_number_def py_index_def save_keys_def nth_append)

lemma store_number_existing:
  assumes "keys w = JArr xs" and "writable E" and "0 \<le> i" and "nat i < length xs"
    and "xs ! nat i = JObj d"
  shows "store_number E i key secret w =
     Return () (w\<lparr>keys := JArr (xs[nat i := JObj (dict_set ''number'' (phone_number w) d)]),
        keys_file := Json (JArr (xs[nat i := JObj (dict_set ''number'' (phone_number w) d)])),
        num_label := NumLabel (phone_number w)\<rparr>)"
  using assms
  by (simp add: store_number_def set_number_def py_index_def save_keys_def)

lemma select_key_typed:
  assumes "select_key ks chosen = Inr (Selected i key secret)"
    and "length (py_split chosen) = 2"
  shows "i = - 1 \<and> key = JStr (py_split chosen ! 0) \<and> secret = JStr (py_split chosen ! 1) \<and>
         length (py_split chosen ! 0) = 32 \<and> length (py_split chosen ! 1) = 16"
  using assms by (auto simp add: select_key_def Let_def split: if_splits)

lemma select_key_entry:
  assumes "select_key (JArr xs) chosen = Inr (Selected i key secret)"
    and "length (py_split chosen) \<noteq> 2" and "0 \<le> i"
  shows "nat i < length xs \<and>
         (\<exists>d. xs ! nat i = JObj d \<and> map_of d ''key'' = Some key \<and> map_of d ''secret'' = Some secret)"
proof -
  from assms obtain e where e: "getitem_int (JArr xs) i = Inr e"
    "getitem_str e ''key'' = Inr key" "getitem_str e ''secret'' = Inr secret"
    by (auto simp add: select_key_def Let_def split: list.splits option.splits sum.splits)
  from e(1) \<open>0 \<le> i\<close> have pos: "nat i < length xs" "xs ! nat i = e"
    by (auto simp add: py_index_def Let_def split: if_splits option.splits)
  from e(2) obtain d where d: "e = JObj d" by (cases e) auto
  with e(2,3) have "map_of d ''key'' = Some key" "map_of d ''secret'' = Some secret"
    by (auto split: option.splits)
  with pos d show ?thesis by simp
qed

lemma select_key_nonempty: "select_key ks chosen = Inr s \<Longrightarrow> chosen \<noteq> []"
  by (auto simp add: select_key_def py_split_def)

lemma request_bearer_result:
  assumes tok: "grants_token (provider E (trace w @ [GetBearer key secret])) tok"
    and o1: "o1 = provider E (trace w @ [GetBearer key secret, GetNumber tok])"
    and kind: "assigned o1 \<or> unassigned o1"
    and num: "carries_number
       (if assigned o1 then o1
        else provider E (trace w @ [GetBearer key secret, GetNumber tok, NewNumber tok])) n"
  shows "\<exists>w'. request_bearer E i key secret w = store_number E i key secret w' \<and>
           trace w' = trace w @ [GetBearer key secret, GetNumber tok] @
              (if unassigned o1 then [NewNumber tok] else []) \<and>
           phone_number w' = n \<and> keys w' = keys w \<and> keys_file w' = keys_file w \<and>
           bearer w' = tok"
proof -
  from tok obtain r j where r: "provider E (trace w @ [GetBearer key secret]) = Returns r"
    "status_code r = 200" "response_json r = Some j" "getitem_str j ''access_token'' = Inr tok"
    by (auto simp add: grants_token_def split: outcome.splits option.splits)
  define w2 where "w2 = set_status ''Success! Token valid for one hour''
      (w\<lparr>trace := trace w @ [GetBearer key secret], bearer := tok\<rparr>)"
  have w2: "trace w2 = trace w @ [GetBearer key secret]" "bearer w2 = tok" "keys w2 = keys w"
    "keys_file w2 = keys_file w"
    by (simp_all add: w2_def set_status_def)
  have step: "request_bearer E i key secret w =
      (case resolve_number E w2 of Raise e w3 \<Rightarrow> Raise e w3
       | Return u w3 \<Rightarrow> store_number E i key secret w3)"
    using r by (simp add: request_bearer_def api_request_def check_response_def json_of_def w2_def)
  have "\<exists>w'. resolve_number E w2 = Return () w' \<and>
           trace w' = trace w2 @ [GetNumber (bearer w2)] @
              (if unassigned o1 then [NewNumber (bearer w2)] else []) \<and>
           phone_number w' = n \<and> keys w' = keys w2 \<and> keys_file w' = keys_file w2 \<and>
           bearer w' = bearer w2"
  proof (rule resolve_number_result)
    show "o1 = provider E (trace w2 @ [GetNumber (bearer w2)])"
      using o1 by (simp add: w2)
    show "assigned o1 \<or> unassigned o1" by fact
    show "carries_number
       (if assigned o1 then o1
        else provider E (trace w2 @ [GetNumber (bearer w2), NewNumber (bearer w2)])) n"
      using num by (simp add: w2 split: if_splits)
  qed
  then obtain w' where "resolve_number E w2 = Return () w'"
    "trace w' = trace w2 @ [GetNumber (bearer w2)] @
              (if unassigned o1 then [NewNumber (bearer w2)] else [])"
    "phone_number w' = n" "keys w' = keys w2" "keys_file w' = keys_file w2" "bearer w' = bearer w2"
    by blast
  with step w2 show ?thesis by auto
qed

text \<open>
  The workflow when it succeeds, for each result of \<^verbatim>\<open>get_number\<close> that \<^verbatim>\<open>api_request\<close> hands
  back: the calls issued, the keys and the file.
\<close>

lemma choose_bearer_result:
  assumes items: "key_items (keys w) = Inr items"
    and sel: "select_key (keys w) chosen = Inr (Selected key_index key secret)"
    and arr: "keys w = JArr xs"
    and offered: "length (py_split chosen) = 2 \<or> 0 \<le> key_index"
    and tok: "grants_token (provider E (trace w @ [GetBearer key secret])) tok"
    and o1: "o1 = provider E (trace w @ [GetBearer key secret, GetNumber tok])"
    and kind: "assigned o1 \<or> unassigned o1"
    and num: "carries_number
       (if assigned o1 then o1
        else provider E (trace w @ [GetBearer key secret, GetNumber tok, NewNumber tok])) n"
    and wr: "writable E"
  shows "\<exists>w'. choose_bearer E chosen True w = Return () w' \<and>
      trace w' = trace w @ [GetBearer key secret, GetNumber tok] @
         (if unassigned o1 then [NewNumber tok] else []) \<and>
      keys w' = JArr (spec_upsert (length (py_split chosen) = 2) (nat key_index) key secret n xs) \<and>
      keys_file w' = Json (keys w') \<and> bearer w' = tok \<and> phone_number w' = n"
proof -
  from sel have ne: "chosen \<noteq> []" by (rule select_key_nonempty)
  with items sel have start:
    "choose_bearer E chosen True w = request_bearer E key_index key secret w"
    by (simp add: choose_bearer_def)
  from request_bearer_result [OF tok o1 kind num, of key_index]
  obtain w1 where w1: "request_bearer E key_index key secret w = store_number E key_index key secret w1"
    "trace w1 = trace w @ [GetBearer key secret, GetNumber tok] @
        (if unassigned o1 then [NewNumber tok] else [])"
    "phone_number w1 = n" "keys w1 = keys w" "keys_file w1 = keys_file w" "bearer w1 = tok"
    by blast
  from w1(4) arr have arr1: "keys w1 = JArr xs" by simp
  show ?thesis
  proof (cases "length (py_split chosen) = 2")
    case True
    with sel have "key_index = - 1" using select_key_typed by blast
    with True start w1 store_number_fresh [OF arr1 wr, of key secret] show ?thesis
      by (simp add: spec_upsert_def)
  next
    case False
    with offered have pos: "0 \<le> key_index" by simp
    from sel arr have "select_key (JArr xs) chosen = Inr (Selected key_index key secret)" by simp
    from select_key_entry [OF this False pos]
    obtain d where d: "nat key_index < length xs" "xs ! nat key_index = JObj d" by blast
    from False start w1 store_number_existing [OF arr1 wr pos d, of key secret] d
    show ?thesis by (simp add: spec_upsert_def set_field_def)
  qed
qed

subsection \<open>One turn of the polling loop\<close>

lemma api_request_effect:
  "trace (world_of (api_request E c w)) = trace w @ [c] \<and>
   bearer (world_of (api_request E c w)) = bearer w \<and>
   phone_number (world_of (api_request E c w)) = phone_number w \<and>
   received_messages (world_of (api_request E c w)) = received_messages w \<and>
   keys (world_of (api_request E c w)) = keys w \<and>
   keys_file (world_of (api_request E c w)) = keys_file w"
proof (cases "provider E (trace w @ [c])")
  case (Returns r)
  then show ?thesis by (simp add: api_request_def)
next
  case (Raises x)
  then show ?thesis
    by (cases x) (simp_all add: api_request_def show_message_def)
qed

lemma check_response_effect:
  "trace (snd (check_response caller p code w)) = trace w \<and>
   bearer (snd (check_response caller p code w)) = bearer w \<and>
   phone_number (snd (check_response caller p code w)) = phone_number w \<and>
   received_messages (snd (check_response caller p code w)) = received_messages w \<and>
   keys (snd (check_response caller p code w)) = keys w \<and>
   keys_file (snd (check_response caller p code w)) = keys_file w"
  by (simp add: check_response_def set_status_def split: option.splits)

lemma show_row_effect:
  "trace (world_of (show_row E m w)) = trace w \<and>
   bearer (world_of (show_row E m w)) = bearer w \<and>
   phone_number (world_of (show_row E m w)) = phone_number w \<and>
   received_messages (world_of (show_row E m w)) = received_messages w \<and>
   keys (world_of (show_row E m w)) = keys w \<and>
   keys_file (world_of (show_row E m w)) = keys_file w"
  by (simp add: show_row_def Let_def split: sum.splits option.splits)

lemma incoming_message_sides:
  "incoming_message E phone j = Inr m \<Longrightarrow>
     msg_type m = INCOMING \<and> destination m = phone \<and> timestamp m \<noteq> None"
  by (auto simp add: incoming_message_def split: sum.splits json.splits option.splits)

text \<open>What one turn of the loop does to the state, however it ends.\<close>

lemma poll_once_effect:
  assumes "turn_world (poll_once E w) = w1"
  shows "trace w1 = trace w @ [GetMessage (bearer w)] \<and> bearer w1 = bearer w \<and>
         phone_number w1 = phone_number w \<and> keys w1 = keys w \<and> keys_file w1 = keys_file w \<and>
         (received_messages w1 = received_messages w \<or>
          (\<exists>m. received_messages w1 = received_messages w @ [m] \<and>
               msg_type m = INCOMING \<and> destination m = phone_number w))"
proof -
  let ?c = "GetMessage (bearer w)"
  note a = api_request_effect [of E ?c w]
  show ?thesis
  proof (cases "api_request E ?c w")
    case (Raise e wa)
    with assms a show ?thesis by (simp add: poll_once_def)
  next
    case (Return p wa)
    obtain ok wk where ck: "check_response ''get_message'' p 200 wa = (ok, wk)"
      by (cases "check_response ''get_message'' p 200 wa")
    with check_response_effect [of "''get_message''" p 200 wa] a Return
    have wk: "trace wk = trace w @ [?c]" "bearer wk = bearer w"
      "phone_number wk = phone_number w" "received_messages wk = received_messages w"
      "keys wk = keys w" "keys_file wk = keys_file w"
      by simp_all
    have same: "w1 = wk \<Longrightarrow> ?thesis" using wk by simp
    show ?thesis
    proof (cases ok)
      case False
      with Return ck assms show ?thesis by (intro same) (simp add: poll_once_def)
    next
      case True
      note head = Return ck True
      show ?thesis
      proof (cases "json_of p")
        case (Inl e)
        with head assms show ?thesis by (intro same) (simp add: poll_once_def)
      next
        case (Inr j)
        note body = this
        show ?thesis
        proof (cases "getitem_str j ''status''")
          case (Inl e)
          with head body assms show ?thesis by (intro same) (simp add: poll_once_def)
        next
          case (Inr st)
          note st = this
          show ?thesis
          proof (cases "st = JStr ''EMPTY''")
            case True
            with head body st assms show ?thesis by (intro same) (simp add: poll_once_def)
          next
            case False
            note more = this
            show ?thesis
            proof (cases "incoming_message E (phone_number wk) j")
              case (Inl e)
              with head body st more assms show ?thesis
                by (intro same) (simp add: poll_once_def)
            next
              case (Inr m)
              let ?w = "wk\<lparr>received_messages := received_messages wk @ [m]\<rparr>"
              from head body st more Inr assms have "w1 = world_of (show_row E m ?w)"
                by (cases "show_row E m ?w") (simp_all add: poll_once_def)
              with show_row_effect [of E m ?w] wk incoming_message_sides [OF Inr]
              show ?thesis by simp
            qed
          qed
        qed
      qed
    qed
  qed
qed

lemma getitem_str_Inr:
  "getitem_str j k = Inr v \<longleftrightarrow> (\<exists>d. j = JObj d \<and> map_of d k = Some v)"
  by (cases j) (auto split: option.splits)

lemma carries_messageE:
  assumes "carries_message E o1 a t i time"
  obtains r d st s where "o1 = Returns r" "status_code r = 200" "response_json r = Some (JObj d)"
    "map_of d ''status'' = Some st" "st \<noteq> JStr ''EMPTY''"
    "map_of d ''senderAddress'' = Some (JStr a)" "map_of d ''message'' = Some (JStr t)"
    "map_of d ''messageId'' = Some i" "map_of d ''sentTimestamp'' = Some (JStr s)"
    "fromisoformat E s = Some time"
proof (cases o1)
  case (Raises x)
  with assms show ?thesis by (simp add: carries_message_def)
next
  case (Returns r)
  show ?thesis
  proof (cases "response_json r")
    case None
    with assms Returns show ?thesis by (simp add: carries_message_def)
  next
    case (Some j)
    show ?thesis
    proof (cases j)
      case (JObj d)
      with assms Returns Some have c: "status_code r = 200"
        and f: "map_of d ''senderAddress'' = Some (JStr a)" "map_of d ''message'' = Some (JStr t)"
          "map_of d ''messageId'' = Some i"
        and st: "(case map_of d ''status'' of None \<Rightarrow> False | Some st \<Rightarrow> st \<noteq> JStr ''EMPTY'')"
        and ts: "(case map_of d ''sentTimestamp'' of None \<Rightarrow> False
            | Some (JStr s) \<Rightarrow> fromisoformat E s = Some time | Some _ \<Rightarrow> False)"
        by (simp_all add: carries_message_def)
      from st obtain v where v: "map_of d ''status'' = Some v" "v \<noteq> JStr ''EMPTY''"
        by (cases "map_of d ''status''") simp_all
      from ts obtain u where u: "map_of d ''sentTimestamp'' = Some u"
        by (cases "map_of d ''sentTimestamp''") simp_all
      with ts obtain s where s: "u = JStr s" "fromisoformat E s = Some time"
        by (cases u) simp_all
      from Returns Some JObj c f v u s show ?thesis by (intro that [of r d v s]) simp_all
    qed (insert assms Returns Some, simp_all add: carries_message_def)
  qed
qed

lemma poll_once_delivers:
  assumes "carries_message E (provider E (trace w @ [GetMessage (bearer w)])) a t i time"
  shows "\<exists>w1. poll_once E w = Again w1 \<and>
           received_messages w1 = received_messages w @ [delivered (phone_number w) a t i time]"
proof -
  from assms obtain r d st s where
    "provider E (trace w @ [GetMessage (bearer w)]) = Returns r" "status_code r = 200"
    "response_json r = Some (JObj d)"
    "map_of d ''status'' = Some st" "st \<noteq> JStr ''EMPTY''"
    "map_of d ''senderAddress'' = Some (JStr a)" "map_of d ''message'' = Some (JStr t)"
    "map_of d ''messageId'' = Some i" "map_of d ''sentTimestamp'' = Some (JStr s)"
    "fromisoformat E s = Some time"
    by (rule carries_messageE)
  then show ?thesis
    by (simp add: delivered_def poll_once_def api_request_def check_response_def json_of_def
        incoming_message_def show_row_def table_item_def Let_def)
qed

lemma poll_once_empty:
  assumes "empty_marker (provider E (trace w @ [GetMessage (bearer w)]))"
  shows "poll_once E w = Break (w\<lparr>trace := trace w @ [GetMessage (bearer w)]\<rparr>)"
  using assms
  by (auto simp add: empty_marker_def poll_once_def api_request_def check_response_def json_of_def
      split: outcome.splits option.splits json.splits)

lemma poll_once_fails:
  assumes "poll_fails (provider E (trace w @ [GetMessage (bearer w)]))"
  shows "\<exists>w1. poll_once E w = Again w1"
  using assms
  by (auto simp add: poll_fails_def poll_once_def api_request_def check_response_def
      show_message_def split: outcome.splits request_error.splits)

lemma poll_once_break:
  assumes "poll_once E w = Break w1"
  shows "empty_marker (provider E (trace w1))"
proof -
  let ?c = "GetMessage (bearer w)"
  from assms have tr: "trace w1 = trace w @ [?c]"
    using poll_once_effect [of E w w1] by simp
  have "empty_marker (provider E (trace w @ [?c]))"
  proof (cases "provider E (trace w @ [?c])")
    case (Raises x)
    with assms show ?thesis
      by (cases x) (simp_all add: poll_once_def api_request_def show_message_def check_response_def)
  next
    case (Returns r)
    with assms show ?thesis
      by (auto simp add: empty_marker_def poll_once_def api_request_def check_response_def
          json_of_def getitem_str_Inr split: option.splits sum.splits if_splits res.splits)
  qed
  with tr show ?thesis by simp
qed

lemma poll_once_abort:
  assumes "poll_once E w = Abort e w1"
  shows "\<not> poll_fails (provider E (trace w1)) \<and> \<not> empty_marker (provider E (trace w1))"
proof -
  let ?c = "GetMessage (bearer w)"
  from assms have tr: "trace w1 = trace w @ [?c]"
    using poll_once_effect [of E w w1] by simp
  from assms poll_once_fails [of E w] have "\<not> poll_fails (provider E (trace w @ [?c]))"
    by auto
  moreover from assms poll_once_empty [of E w] have "\<not> empty_marker (provider E (trace w @ [?c]))"
    by auto
  ultimately show ?thesis using tr by simp
qed

lemma poll_loop_Again: "poll_once E w = Again w1 \<Longrightarrow> poll_loop E w = poll_loop E w1"
  by (subst poll_loop.simps) simp

lemma poll_loop_Break: "poll_once E w = Break w1 \<Longrightarrow> poll_loop E w = Some (Return () w1)"
  by (subst poll_loop.simps) simp

lemma poll_loop_Abort: "poll_once E w = Abort e w1 \<Longrightarrow> poll_loop E w = Some (Raise e w1)"
  by (subst poll_loop.simps) simp

lemma poll_inv_Again:
  assumes step: "poll_once E w = Again w1" and ih: "poll_inv E w1 r"
  shows "poll_inv E w r"
proof -
  from step have eff: "trace w1 = trace w @ [GetMessage (bearer w)]" "bearer w1 = bearer w"
    "phone_number w1 = phone_number w" "keys w1 = keys w" "keys_file w1 = keys_file w"
    "received_messages w1 = received_messages w \<or>
        (\<exists>m. received_messages w1 = received_messages w @ [m] \<and>
             msg_type m = INCOMING \<and> destination m = phone_number w)"
    using poll_once_effect [of E w w1] by simp_all
  from ih obtain n where "trace (world_of r) = trace w1 @ replicate (Suc n) (GetMessage (bearer w1))"
    unfolding poll_inv_def by blast
  with eff have "trace (world_of r) = trace w @ replicate (Suc (Suc n)) (GetMessage (bearer w))"
    by simp
  then have tr: "\<exists>n. trace (world_of r) = trace w @ replicate (Suc n) (GetMessage (bearer w))"
    by blast
  from ih obtain ms where ms: "received_messages (world_of r) = received_messages w1 @ ms"
    "list_all (\<lambda>m. msg_type m = INCOMING \<and> destination m = phone_number w1) ms"
    unfolding poll_inv_def by blast
  from eff(6) have rc: "\<exists>ms. received_messages (world_of r) = received_messages w @ ms \<and>
             list_all (\<lambda>m. msg_type m = INCOMING \<and> destination m = phone_number w) ms"
  proof
    assume "received_messages w1 = received_messages w"
    with ms eff(3) show ?thesis by auto
  next
    assume "\<exists>m. received_messages w1 = received_messages w @ [m] \<and>
             msg_type m = INCOMING \<and> destination m = phone_number w"
    then obtain m where "received_messages w1 = received_messages w @ [m]"
      "msg_type m = INCOMING" "destination m = phone_number w" by blast
    with ms eff(3) have "received_messages (world_of r) = received_messages w @ (m # ms) \<and>
       list_all (\<lambda>m. msg_type m = INCOMING \<and> destination m = phone_number w) (m # ms)"
      by simp
    then show ?thesis by blast
  qed
  from ih have "phone_number (world_of r) = phone_number w1" "bearer (world_of r) = bearer w1"
    "keys (world_of r) = keys w1" "keys_file (world_of r) = keys_file w1"
    "raised r = None \<longrightarrow> empty_marker (provider E (trace (world_of r)))"
    "raised r \<noteq> None \<longrightarrow>
       \<not> poll_fails (provider E (trace (world_of r))) \<and>
       \<not> empty_marker (provider E (trace (world_of r)))"
    unfolding poll_inv_def by blast+
  with eff tr rc show ?thesis unfolding poll_inv_def by simp
qed

lemma poll_inv_end:
  assumes step: "turn_world (poll_once E w) = w1" and r: "world_of r = w1"
    and e: "raised r = None \<longrightarrow> poll_once E w = Break w1"
    and x: "raised r \<noteq> None \<longrightarrow> (\<exists>err. poll_once E w = Abort err w1)"
  shows "poll_inv E w r"
proof -
  from step have eff: "trace w1 = trace w @ [GetMessage (bearer w)]" "bearer w1 = bearer w"
    "phone_number w1 = phone_number w" "keys w1 = keys w" "keys_file w1 = keys_file w"
    "received_messages w1 = received_messages w \<or>
        (\<exists>m. received_messages w1 = received_messages w @ [m] \<and>
             msg_type m = INCOMING \<and> destination m = phone_number w)"
    using poll_once_effect [of E w w1] by simp_all
  from eff(1) have "trace w1 = trace w @ replicate (Suc 0) (GetMessage (bearer w))" by simp
  then have tr: "\<exists>n. trace w1 = trace w @ replicate (Suc n) (GetMessage (bearer w))" by blast
  from eff(6) have rc: "\<exists>ms. received_messages w1 = received_messages w @ ms \<and>
             list_all (\<lambda>m. msg_type m = INCOMING \<and> destination m = phone_number w) ms"
  proof
    assume "received_messages w1 = received_messages w"
    then have "received_messages w1 = received_messages w @ [] \<and>
       list_all (\<lambda>m. msg_type m = INCOMING \<and> destination m = phone_number w) []" by simp
    then show ?thesis by blast
  next
    assume "\<exists>m. received_messages w1 = received_messages w @ [m] \<and>
             msg_type m = INCOMING \<and> destination m = phone_number w"
    then obtain m where "received_messages w1 = received_messages w @ [m] \<and>
       list_all (\<lambda>m. msg_type m = INCOMING \<and> destination m = phone_number w) [m]" by auto
    then show ?thesis by blast
  qed
  from e have "raised r = None \<longrightarrow> empty_marker (provider E (trace w1))"
    using poll_once_break by blast
  moreover from x have "raised r \<noteq> None \<longrightarrow>
      \<not> poll_fails (provider E (trace w1)) \<and> \<not> empty_marker (provider E (trace w1))"
    using poll_once_abort by blast
  ultimately show ?thesis using eff tr rc r unfolding poll_inv_def by simp
qed

lemma poll_loop_result:
  assumes "poll_loop E w = Some r"
  shows "poll_inv E w r"
proof (rule poll_loop.raw_induct [where P = poll_inv, OF _ assms])
  fix loop :: "env \<Rightarrow> world \<Rightarrow> unit res option" and E w r
  assume ih: "\<And>E w r. loop E w = Some r \<Longrightarrow> poll_inv E w r"
    and step: "(case poll_once E w of Again w1 \<Rightarrow> loop E w1
                | Break w1 \<Rightarrow> Some (Return () w1)
                | Abort e w1 \<Rightarrow> Some (Raise e w1)) = Some r"
  show "poll_inv E w r"
  proof (cases "poll_once E w")
    case (Again w1)
    with step have "loop E w1 = Some r" by simp
    from poll_inv_Again [OF Again ih [OF this]] show ?thesis .
  next
    case (Break w1)
    with step have "r = Return () w1" by simp
    with Break show ?thesis by (intro poll_inv_end [of E w w1]) simp_all
  next
    case (Abort e w1)
    with step have "r = Raise e w1" by simp
    with Abort show ?thesis by (intro poll_inv_end [of E w w1]) simp_all
  qed
qed

lemma poll_loop_diverges:
  assumes "\<And>n. poll_fails (provider E (trace w @ replicate (Suc n) (GetMessage (bearer w))))"
  shows "poll_loop E w = None"
proof (rule ccontr)
  assume "poll_loop E w \<noteq> None"
  then obtain r where r: "poll_loop E w = Some r" by blast
  have "\<exists>n. \<not> poll_fails (provider E (trace w @ replicate (Suc n) (GetMessage (bearer w))))"
  proof (rule poll_loop.raw_induct
      [where P = "\<lambda>E w r. \<exists>n. \<not> poll_fails (provider E (trace w @ replicate (Suc n) (GetMessage (bearer w))))",
        OF _ r])
    fix loop :: "env \<Rightarrow> world \<Rightarrow> unit res option" and E w r
    assume ih: "\<And>E w r. loop E w = Some r \<Longrightarrow>
        \<exists>n. \<not> poll_fails (provider E (trace w @ replicate (Suc n) (GetMessage (bearer w))))"
      and step: "(case poll_once E w of Again w1 \<Rightarrow> loop E w1
                | Break w1 \<Rightarrow> Some (Return () w1)
                | Abort e w1 \<Rightarrow> Some (Raise e w1)) = Some r"
    show "\<exists>n. \<not> poll_fails (provider E (trace w @ replicate (Suc n) (GetMessage (bearer w))))"
    proof (cases "poll_fails (provider E (trace w @ [GetMessage (bearer w)]))")
      case False
      then have "\<not> poll_fails (provider E (trace w @ replicate (Suc 0) (GetMessage (bearer w))))"
        by simp
      then show ?thesis by blast
    next
      case True
      from poll_once_fails [OF True] obtain w1 where w1: "poll_once E w = Again w1" by blast
      with step have "loop E w1 = Some r" by simp
      from ih [OF this] obtain n where
        n: "\<not> poll_fails (provider E (trace w1 @ replicate (Suc n) (GetMessage (bearer w1))))"
        by blast
      from w1 have "trace w1 = trace w @ [GetMessage (bearer w)]" "bearer w1 = bearer w"
        using poll_once_effect [of E w w1] by simp_all
      with n have "\<not> poll_fails (provider E (trace w @ replicate (Suc (Suc n)) (GetMessage (bearer w))))"
        by simp
      then show ?thesis by blast
    qed
  qed
  with assms show False by blast
qed


lemma poll_once_delivers_effect:
  assumes "carries_message E (provider E (trace w @ [GetMessage (bearer w)])) a t i time"
  shows "\<exists>w1. poll_once E w = Again w1 \<and>
           received_messages w1 = received_messages w @ [delivered (phone_number w) a t i time] \<and>
           trace w1 = trace w @ [GetMessage (bearer w)] \<and> bearer w1 = bearer w \<and>
           phone_number w1 = phone_number w"
proof -
  from poll_once_delivers [OF assms] obtain w1 where
    w1: "poll_once E w = Again w1"
    "received_messages w1 = received_messages w @ [delivered (phone_number w) a t i time]"
    by blast
  with poll_once_effect [of E w w1] show ?thesis by simp
qed

section \<open>The claims\<close>

subsection \<open>The bearer workflow\<close>

text \<open>
  The workflow where it does what is meant. After \<^verbatim>\<open>get_bearer\<close> has granted a token,
  \<^verbatim>\<open>get_number\<close> is called first. When it answers with a response, \<^verbatim>\<open>new_number\<close> is called
  exactly once if and only if the response reports no number (its status is an error, so the
  response is false). When the last response carries a number, the number is upserted into the
  list of keys (a new entry for a pair that was typed, else the number field of the entry that
  was selected, at a position of at least 1) and the list is saved at once. The file is taken
  to be writable and \<^verbatim>\<open>self.keys\<close> to be a list.
\<close>

lemma bearer_workflow_stores_number:
  assumes items: "key_items (keys w) = Inr items"
    and sel: "select_key (keys w) chosen = Inr (Selected key_index key secret)"
    and arr: "keys w = JArr xs"
    and offered: "length (py_split chosen) = 2 \<or> 0 \<le> key_index"
    and tok: "grants_token (provider E (trace w @ [GetBearer key secret])) tok"
    and answer: "provider E (trace w @ [GetBearer key secret, GetNumber tok]) = Returns r1"
    and num: "carries_number
       (if response_ok r1 then Returns r1
        else provider E (trace w @ [GetBearer key secret, GetNumber tok, NewNumber tok])) n"
    and wr: "writable E"
  shows "\<exists>w'. choose_bearer E chosen True w = Return () w' \<and>
      trace w' = trace w @ [GetBearer key secret, GetNumber tok] @
         (if response_ok r1 then [] else [NewNumber tok]) \<and>
      keys w' = JArr (spec_upsert (length (py_split chosen) = 2) (nat key_index) key secret n xs) \<and>
      keys_file w' = Json (keys w') \<and> bearer w' = tok \<and> phone_number w' = n"
proof -
  have o1: "Returns r1 = provider E (trace w @ [GetBearer key secret, GetNumber tok])"
    using answer by simp
  have kind: "assigned (Returns r1) \<or> unassigned (Returns r1)"
    by (simp add: assigned_def unassigned_def)
  have num': "carries_number
       (if assigned (Returns r1) then Returns r1
        else provider E (trace w @ [GetBearer key secret, GetNumber tok, NewNumber tok])) n"
    using num by (simp add: assigned_def)
  from choose_bearer_result [OF items sel arr offered tok o1 kind num' wr]
  show ?thesis by (cases "response_ok r1") (auto simp add: unassigned_def)
qed

text \<open>
  A bearer without a number: \<^verbatim>\<open>get_number\<close> answers 404, \<^verbatim>\<open>new_number\<close> is called once and
  its number is stored with the new pair.
\<close>

lemma bearer_workflow_stores_number_example:
  "\<not> response_ok \<lparr>status_code = 404, response_text = [], response_json = None\<rparr> \<and>
   (\<exists>w'. choose_bearer (sample_env not_found) (sample_key @ '' '' @ sample_secret) True
            (initial_world Missing) = Return () w' \<and>
      trace w' = [GetBearer (JStr sample_key) (JStr sample_secret), GetNumber (JStr ''token''),
                  NewNumber (JStr ''token'')] \<and>
      keys w' = JArr [JObj [(''key'', JStr sample_key), (''secret'', JStr sample_secret),
                            (''number'', JStr ''+61400000001'')]] \<and>
      keys_file w' = Json (keys w') \<and> phone_number w' = JStr ''+61400000001'')"
proof -
  let ?E = "sample_env not_found"
  let ?w = "initial_world Missing"
  let ?c = "sample_key @ '' '' @ sample_secret"
  let ?k = "JStr sample_key"
  let ?s = "JStr sample_secret"
  let ?t = "JStr ''token''"
  let ?r = "\<lparr>status_code = 404, response_text = [], response_json = None\<rparr>"
  have items: "key_items (keys ?w) = Inr []" by code_simp
  have sel: "select_key (keys ?w) ?c = Inr (Selected (- 1) ?k ?s)" by code_simp
  have arr: "keys ?w = JArr []" by code_simp
  have offered: "length (py_split ?c) = 2 \<or> (0::int) \<le> - 1" by code_simp
  have tok: "grants_token (provider ?E (trace ?w @ [GetBearer ?k ?s])) ?t" by code_simp
  have answer: "provider ?E (trace ?w @ [GetBearer ?k ?s, GetNumber ?t]) = Returns ?r"
    by code_simp
  have no: "\<not> response_ok ?r" by code_simp
  have num: "carries_number
       (if response_ok ?r then Returns ?r
        else provider ?E (trace ?w @ [GetBearer ?k ?s, GetNumber ?t, NewNumber ?t]))
       (JStr ''+61400000001'')" by code_simp
  have wr: "writable ?E" by code_simp
  have two: "length (py_split ?c) = 2" by code_simp
  have tr: "trace ?w = []" by code_simp
  from bearer_workflow_stores_number [OF items sel arr offered tok answer num wr] no two tr
  show ?thesis by (auto simp add: spec_upsert_def)
qed

text \<open>
  Claim C1. After a successful \<^verbatim>\<open>get_bearer\<close>, \<^verbatim>\<open>new_number\<close> is to be called if and only if
  \<^verbatim>\<open>get_number\<close> reports that no number is assigned, and the number of an entry that was
  selected is to be stored in that entry. The code misses this at two inputs. When
  \<^verbatim>\<open>get_number\<close> times out, \<^verbatim>\<open>api_request\<close> returns \<^verbatim>\<open>None\<close>, which \<^verbatim>\<open>not phone_number\<close> takes
  like a response without a number: after the box of the timeout the box \<^verbatim>\<open>No number\<close> is shown
  and \<^verbatim>\<open>new_number\<close> is called, although nothing was reported. And the position 0 typed into the
  dialog gives \<^verbatim>\<open>key_index\<close> -1, the mark of a pair that was typed: the pair of the last entry
  is used, a copy of it is appended with the number, and the entry itself is left without.
\<close>

theorem new_number_after_timeout:
  "provider (sample_env (Raises Timeout))
      [GetBearer (JStr sample_key) (JStr sample_secret), GetNumber (JStr ''token'')] =
     Raises Timeout \<and>
   trace (world_of (choose_bearer (sample_env (Raises Timeout))
      (sample_key @ '' '' @ sample_secret) True (initial_world Missing))) =
     [GetBearer (JStr sample_key) (JStr sample_secret), GetNumber (JStr ''token''),
      NewNumber (JStr ''token'')] \<and>
   dialogs (world_of (choose_bearer (sample_env (Raises Timeout))
      (sample_key @ '' '' @ sample_secret) True (initial_world Missing))) =
     [(''Request timed out'', ''Check connection and try again'', Critical),
      (''No number'', ''This bearer has no number associated. Will request a new one.'',
       Information)] \<and>
   keys (world_of (choose_bearer (sample_env not_found) ''0'' True stored_world)) =
     JArr [JObj [(''key'', JStr sample_key), (''secret'', JStr sample_secret)],
           JObj [(''key'', JStr sample_key), (''secret'', JStr sample_secret),
                 (''number'', JStr ''+61400000001'')]]"
  by code_simp

text \<open>
  Claim C3. A pair that was typed into the dialog (the text has exactly two words) and whose
  key is not 32 or whose secret is not 16 characters long is rejected before any call of the
  provider: no call is issued, the keys are unchanged, and the box \<^verbatim>\<open>Invalid key\<close> is shown.
  The pair of an entry that is selected from the list is not checked for its lengths.
\<close>

theorem typed_pair_is_validated:
  assumes "py_split chosen = [key, secret]" and "length key \<noteq> 32 \<or> length secret \<noteq> 16"
  shows "trace (world_of (choose_bearer E chosen ok_pressed w)) = trace w \<and>
         keys (world_of (choose_bearer E chosen ok_pressed w)) = keys w \<and>
         (ok_pressed \<and> key_items (keys w) = Inr items \<longrightarrow>
            choose_bearer E chosen ok_pressed w =
              Return () (w\<lparr>dialogs := dialogs w @
                 [(''Invalid key'', ''Key must be of length 32 & secret of length 16.'',
                   Critical)]\<rparr>))"
proof -
  from assms(1) have "chosen \<noteq> []" by (auto simp add: py_split_def)
  moreover from assms have "select_key (keys w) chosen = Inr Invalid"
    by (simp add: select_key_def)
  ultimately show ?thesis
    by (simp add: choose_bearer_def show_message_def split: sum.splits)
qed

theorem typed_pair_is_validated_witness:
  "py_split ''abc def'' = [''abc'', ''def''] \<and> length ''abc'' \<noteq> 32 \<and>
   choose_bearer offline_env ''abc def'' True (initial_world Missing) =
     Return () ((initial_world Missing)\<lparr>dialogs :=
        [(''Invalid key'', ''Key must be of length 32 & secret of length 16.'', Critical)]\<rparr>) \<and>
   trace (world_of (choose_bearer offline_env ''abc def'' True (initial_world Missing))) = []"
proof -
  have h1: "py_split ''abc def'' = [''abc'', ''def'']" by code_simp
  have h2: "length ''abc'' \<noteq> 32 \<or> length ''def'' \<noteq> 16" by simp
  have h3: "key_items (keys (initial_world Missing)) = Inr []" by code_simp
  from typed_pair_is_validated [OF h1 h2, of offline_env True "initial_world Missing" "[]"] h1 h3
  show ?thesis by (simp add: initial_world_def)
qed

text \<open>
  The entry offered as \<^verbatim>\<open>1. [unknown number] abc\<close> has a key of three characters; selecting it
  sends the pair to \<^verbatim>\<open>get_bearer\<close>.
\<close>

theorem stored_pair_is_not_validated:
  "length ''abc'' \<noteq> 32 \<and>
   trace (world_of (choose_bearer offline_env ''1. [unknown number] abc'' True short_key_world)) =
     [GetBearer (JStr ''abc'') (JStr ''def'')]"
  by code_simp

subsection \<open>Polling\<close>

text \<open>The run of \<^verbatim>\<open>get_message\<close> against the sample provider.\<close>

lemma sample_poll_run:
  "get_message (sample_env not_found) sample_session = Some (Return () sample_polled)"
  by code_simp

text \<open>
  Claim C2. When the provider answers the polls of \<^verbatim>\<open>get_message\<close> with two responses that
  carry a message each and then with the empty marker, \<^verbatim>\<open>get_message\<close> appends the two
  messages, each with the sender, text, id and time of its response and with the number of the
  session as destination, in the order of the responses, and returns after the third poll.
  Nothing requires the two responses to differ: a message delivered twice is appended twice.
\<close>

theorem poll_appends_in_order:
  assumes b: "bearer w \<noteq> JNull"
    and m1: "carries_message E (provider E (trace w @ [GetMessage (bearer w)])) a1 t1 i1 time1"
    and m2: "carries_message E
       (provider E (trace w @ [GetMessage (bearer w), GetMessage (bearer w)])) a2 t2 i2 time2"
    and e: "empty_marker
       (provider E (trace w @ [GetMessage (bearer w), GetMessage (bearer w), GetMessage (bearer w)]))"
  shows "\<exists>w'. get_message E w = Some (Return () w') \<and>
           received_messages w' = received_messages w @
             [delivered (phone_number w) a1 t1 i1 time1,
              delivered (phone_number w) a2 t2 i2 time2] \<and>
           trace w' = trace w @ [GetMessage (bearer w), GetMessage (bearer w), GetMessage (bearer w)] \<and>
           status w' = ''Fetched all messages''"
proof -
  let ?g = "GetMessage (bearer w)"
  let ?m1 = "delivered (phone_number w) a1 t1 i1 time1"
  let ?m2 = "delivered (phone_number w) a2 t2 i2 time2"
  define w0 where "w0 = set_status ''Fetching messages...'' w"
  have w0: "trace w0 = trace w" "bearer w0 = bearer w" "phone_number w0 = phone_number w"
    "received_messages w0 = received_messages w"
    by (simp_all add: w0_def set_status_def)
  from m1 have "carries_message E (provider E (trace w0 @ [GetMessage (bearer w0)])) a1 t1 i1 time1"
    by (simp add: w0)
  from poll_once_delivers_effect [OF this] obtain w1 where
    w1: "poll_once E w0 = Again w1" "received_messages w1 = received_messages w @ [?m1]"
    "trace w1 = trace w @ [?g]" "bearer w1 = bearer w" "phone_number w1 = phone_number w"
    by (auto simp add: w0)
  from m2 have "carries_message E (provider E (trace w1 @ [GetMessage (bearer w1)])) a2 t2 i2 time2"
    by (simp add: w1)
  from poll_once_delivers_effect [OF this] obtain w2 where
    w2: "poll_once E w1 = Again w2" "received_messages w2 = received_messages w @ [?m1, ?m2]"
    "trace w2 = trace w @ [?g, ?g]" "bearer w2 = bearer w" "phone_number w2 = phone_number w"
    by (auto simp add: w1)
  from e have "empty_marker (provider E (trace w2 @ [GetMessage (bearer w2)]))"
    by (simp add: w2)
  from poll_once_empty [OF this]
  have w3: "poll_once E w2 = Break (w2\<lparr>trace := trace w @ [?g, ?g, ?g]\<rparr>)"
    by (simp add: w2)
  have "poll_loop E w0 = Some (Return () (w2\<lparr>trace := trace w @ [?g, ?g, ?g]\<rparr>))"
    by (simp add: poll_loop_Again [OF w1(1)] poll_loop_Again [OF w2(1)] poll_loop_Break [OF w3])
  with b have "get_message E w =
      Some (Return () (set_status ''Fetched all messages'' (w2\<lparr>trace := trace w @ [?g, ?g, ?g]\<rparr>)))"
    by (simp add: get_message_def w0_def)
  with w2 show ?thesis by (simp add: set_status_def)
qed

text \<open>
  The sample provider sends the same response twice; both copies are appended, with the
  fields of the response.
\<close>

theorem poll_appends_in_order_witness:
  "bearer sample_session \<noteq> JNull \<and>
   carries_message (sample_env not_found)
     (provider (sample_env not_found) [GetMessage (JStr ''token'')])
     ''+61400000002'' ''hello'' (JStr ''m1'') sample_time \<and>
   carries_message (sample_env not_found)
     (provider (sample_env not_found) [GetMessage (JStr ''token''), GetMessage (JStr ''token'')])
     ''+61400000002'' ''hello'' (JStr ''m1'') sample_time \<and>
   (\<exists>w'. get_message (sample_env not_found) sample_session = Some (Return () w') \<and>
      received_messages w' =
        [\<lparr>msg_type = INCOMING, sender = JStr ''+61400000002'',
          destination = JStr ''+61400000001'', message_text = JStr ''hello'',
          msg_id = JStr ''m1'', timestamp = Some sample_time\<rparr>,
         \<lparr>msg_type = INCOMING, sender = JStr ''+61400000002'',
          destination = JStr ''+61400000001'', message_text = JStr ''hello'',
          msg_id = JStr ''m1'', timestamp = Some sample_time\<rparr>] \<and>
      trace w' = [GetMessage (JStr ''token''), GetMessage (JStr ''token''),
                  GetMessage (JStr ''token'')])"
proof -
  let ?E = "sample_env not_found"
  let ?g = "GetMessage (bearer sample_session)"
  have b: "bearer sample_session \<noteq> JNull" by code_simp
  have m1: "carries_message ?E (provider ?E (trace sample_session @ [?g]))
      ''+61400000002'' ''hello'' (JStr ''m1'') sample_time" by code_simp
  have m2: "carries_message ?E (provider ?E (trace sample_session @ [?g, ?g]))
      ''+61400000002'' ''hello'' (JStr ''m1'') sample_time" by code_simp
  have e: "empty_marker (provider ?E (trace sample_session @ [?g, ?g, ?g]))" by code_simp
  have s: "bearer sample_session = JStr ''token''" "trace sample_session = []"
    "received_messages sample_session = []"
    "phone_number sample_session = JStr ''+61400000001''" by code_simp+
  from poll_appends_in_order [OF b m1 m2 e] b m1 m2 s show ?thesis
    by (auto simp add: delivered_def)
qed

text \<open>The run of \<^verbatim>\<open>get_message\<close> against a provider that answers 200 with an empty object.\<close>

lemma bare_poll_run:
  "get_message bare_env sample_session =
     Some (Raise (KeyError (JStr ''status''))
       (sample_session\<lparr>status := ''Fetching messages...'',
          trace := [GetMessage (JStr ''token'')]\<rparr>))"
  by code_simp

text \<open>
  Claim C9. With a bearer, \<^verbatim>\<open>get_message\<close> returns only after a poll answered with status 200
  and the status field \<^verbatim>\<open>EMPTY\<close>, and polls were its only calls. It is left by an exception
  only after a poll that neither failed (by a timeout, a network problem or a status other
  than 200) nor brought the empty marker. And when every poll from now on fails in one of
  these ways, it never returns and never raises: the result is \<open>None\<close>.
\<close>

theorem poll_ends_only_at_empty_marker:
  assumes b: "bearer w \<noteq> JNull"
  shows "(get_message E w = Some (Return () w') \<longrightarrow>
            empty_marker (provider E (trace w')) \<and>
            (\<exists>n. trace w' = trace w @ replicate (Suc n) (GetMessage (bearer w)))) \<and>
         (get_message E w = Some (Raise e w') \<longrightarrow>
            \<not> poll_fails (provider E (trace w')) \<and> \<not> empty_marker (provider E (trace w')) \<and>
            (\<exists>n. trace w' = trace w @ replicate (Suc n) (GetMessage (bearer w)))) \<and>
         ((\<forall>n. poll_fails (provider E (trace w @ replicate (Suc n) (GetMessage (bearer w))))) \<longrightarrow>
            get_message E w = None)"
proof (intro conjI impI)
  define w0 where "w0 = set_status ''Fetching messages...'' w"
  have w0: "trace w0 = trace w" "bearer w0 = bearer w"
    by (simp_all add: w0_def set_status_def)
  {
    assume "get_message E w = Some (Return () w')"
    with b obtain w1 where w1: "poll_loop E w0 = Some (Return () w1)"
      "w' = set_status ''Fetched all messages'' w1"
      by (auto simp add: get_message_def w0_def split: option.splits res.splits)
    from poll_loop_result [OF w1(1)] have "empty_marker (provider E (trace w1))"
      "\<exists>n. trace w1 = trace w0 @ replicate (Suc n) (GetMessage (bearer w0))"
      unfolding poll_inv_def by simp_all
    with w1(2) w0 show "empty_marker (provider E (trace w'))"
      and "\<exists>n. trace w' = trace w @ replicate (Suc n) (GetMessage (bearer w))"
      by (simp_all add: set_status_def)
  }
  {
    assume "get_message E w = Some (Raise e w')"
    with b have w1: "poll_loop E w0 = Some (Raise e w')"
      by (auto simp add: get_message_def w0_def split: option.splits res.splits)
    from poll_loop_result [OF w1] have "\<not> poll_fails (provider E (trace w'))"
      "\<not> empty_marker (provider E (trace w'))"
      "\<exists>n. trace w' = trace w0 @ replicate (Suc n) (GetMessage (bearer w0))"
      unfolding poll_inv_def by simp_all
    with w0 show "\<not> poll_fails (provider E (trace w'))"
      and "\<not> empty_marker (provider E (trace w'))"
      and "\<exists>n. trace w' = trace w @ replicate (Suc n) (GetMessage (bearer w))"
      by simp_all
  }
  {
    assume "\<forall>n. poll_fails (provider E (trace w @ replicate (Suc n) (GetMessage (bearer w))))"
    then have "\<And>n. poll_fails (provider E (trace w0 @ replicate (Suc n) (GetMessage (bearer w0))))"
      by (simp add: w0)
    then have "poll_loop E w0 = None" by (rule poll_loop_diverges)
    with b show "get_message E w = None"
      by (simp add: get_message_def w0_def)
  }
qed

text \<open>
  Against the sample provider the third poll brings the empty marker and \<^verbatim>\<open>get_message\<close>
  returns; when every call times out it never does; and an answer 200 with an empty object,
  which is neither a failed poll nor the empty marker, ends it by an exception.
\<close>

theorem poll_ends_only_at_empty_marker_witness:
  "bearer sample_session \<noteq> JNull \<and>
   get_message (sample_env not_found) sample_session \<noteq> None \<and>
   empty_marker (provider (sample_env not_found)
     [GetMessage (JStr ''token''), GetMessage (JStr ''token''), GetMessage (JStr ''token'')]) \<and>
   (\<forall>n. poll_fails (provider offline_env
      (trace sample_session @ replicate (Suc n) (GetMessage (bearer sample_session))))) \<and>
   get_message offline_env sample_session = None \<and>
   raised (the (get_message bare_env sample_session)) = Some (KeyError (JStr ''status'')) \<and>
   \<not> poll_fails (provider bare_env [GetMessage (JStr ''token'')])"
proof -
  have b: "bearer sample_session \<noteq> JNull" by code_simp
  have f: "\<forall>n. poll_fails (provider offline_env
      (trace sample_session @ replicate (Suc n) (GetMessage (bearer sample_session))))"
    by (simp add: offline_env_def poll_fails_def)
  from poll_ends_only_at_empty_marker [OF b, of offline_env] f
  have never: "get_message offline_env sample_session = None" by blast
  from poll_ends_only_at_empty_marker [OF b, of "sample_env not_found" sample_polled]
    sample_poll_run
  have "empty_marker (provider (sample_env not_found) (trace sample_polled))"
    by blast
  then have em: "empty_marker (provider (sample_env not_found)
     [GetMessage (JStr ''token''), GetMessage (JStr ''token''), GetMessage (JStr ''token'')])"
    by (simp add: sample_polled_def)
  let ?w = "sample_session\<lparr>status := ''Fetching messages...'',
          trace := [GetMessage (JStr ''token'')]\<rparr>"
  from poll_ends_only_at_empty_marker
      [OF b, where E = bare_env and e = "KeyError (JStr ''status'')" and w' = ?w]
    bare_poll_run
  have "\<not> poll_fails (provider bare_env (trace ?w))" by blast
  then have nf: "\<not> poll_fails (provider bare_env [GetMessage (JStr ''token'')])" by simp
  from b f never sample_poll_run em nf bare_poll_run show ?thesis by simp
qed

text \<open>
  The loop is left with no empty marker: the answer 200 with an empty object has no status
  field, and the \<^verbatim>\<open>KeyError\<close> of \<^verbatim>\<open>j["status"]\<close> ends \<^verbatim>\<open>get_message\<close> after one poll.
\<close>

theorem poll_ends_by_exception:
  "get_message bare_env sample_session =
     Some (Raise (KeyError (JStr ''status''))
       (sample_session\<lparr>status := ''Fetching messages...'',
          trace := [GetMessage (JStr ''token'')]\<rparr>)) \<and>
   \<not> empty_marker (provider bare_env [GetMessage (JStr ''token'')])"
proof -
  have "\<not> empty_marker (provider bare_env [GetMessage (JStr ''token'')])" by code_simp
  with bare_poll_run show ?thesis by simp
qed

subsection \<open>Messages\<close>

text \<open>
  Claim C8. The side of a message that goes with its direction is the number of the session:
  the message built by \<^verbatim>\<open>send_message\<close> is outgoing and its sender is the number, and every
  message that \<^verbatim>\<open>get_message\<close> appends is incoming and its destination is the number. The other
  side is what the user typed or the provider sent, and can be the same number.
\<close>

theorem message_side_matches_direction:
  "msg_type (outgoing_message w) = OUTGOING \<and> sender (outgoing_message w) = phone_number w \<and>
   (get_message E w = Some r \<longrightarrow>
      phone_number (world_of r) = phone_number w \<and>
      (\<exists>ms. received_messages (world_of r) = received_messages w @ ms \<and>
            list_all (\<lambda>m. msg_type m = INCOMING \<and> destination m = phone_number w) ms))"
proof (intro conjI impI)
  show "msg_type (outgoing_message w) = OUTGOING" "sender (outgoing_message w) = phone_number w"
    by (simp_all add: outgoing_message_def)
  define w0 where "w0 = set_status ''Fetching messages...'' w"
  have w0: "phone_number w0 = phone_number w" "received_messages w0 = received_messages w"
    by (simp_all add: w0_def set_status_def)
  assume r: "get_message E w = Some r"
  have "phone_number (world_of r) = phone_number w \<and>
      (\<exists>ms. received_messages (world_of r) = received_messages w @ ms \<and>
            list_all (\<lambda>m. msg_type m = INCOMING \<and> destination m = phone_number w) ms)"
  proof (cases "bearer w = JNull")
    case True
    with r have "r = Return () (set_status ''Request bearer first'' w)"
      by (simp add: get_message_def)
    then have "phone_number (world_of r) = phone_number w \<and>
       received_messages (world_of r) = received_messages w @ [] \<and>
       list_all (\<lambda>m. msg_type m = INCOMING \<and> destination m = phone_number w) []"
      by (simp add: set_status_def)
    then show ?thesis by blast
  next
    case False
    with r obtain r0 where r0: "poll_loop E w0 = Some r0"
      "phone_number (world_of r) = phone_number (world_of r0)"
      "received_messages (world_of r) = received_messages (world_of r0)"
      by (auto simp add: get_message_def w0_def set_status_def split: option.splits res.splits)
    from poll_loop_result [OF r0(1)] r0(2,3) w0 show ?thesis
      unfolding poll_inv_def by simp
  qed
  then show "phone_number (world_of r) = phone_number w"
    and "\<exists>ms. received_messages (world_of r) = received_messages w @ ms \<and>
            list_all (\<lambda>m. msg_type m = INCOMING \<and> destination m = phone_number w) ms"
    by simp_all
qed

theorem message_side_matches_direction_witness:
  "get_message (sample_env not_found) sample_session \<noteq> None \<and>
   received_messages (world_of (the (get_message (sample_env not_found) sample_session))) =
     [sample_message, sample_message] \<and>
   list_all (\<lambda>m. msg_type m = INCOMING \<and> destination m = phone_number sample_session)
     [sample_message, sample_message] \<and>
   sender (outgoing_message own_number_world) = phone_number own_number_world"
proof -
  let ?E = "sample_env not_found"
  from sample_poll_run obtain r where r: "get_message ?E sample_session = Some r"
    "received_messages (world_of r) = [sample_message, sample_message]"
    by (simp add: sample_polled_def)
  from message_side_matches_direction [of own_number_world]
  have out: "sender (outgoing_message own_number_world) = phone_number own_number_world"
    by blast
  from message_side_matches_direction [of sample_session ?E r] r(1)
  obtain ms where ms: "received_messages (world_of r) = received_messages sample_session @ ms"
    "list_all (\<lambda>m. msg_type m = INCOMING \<and> destination m = phone_number sample_session) ms"
    by blast
  have "received_messages sample_session = []" by code_simp
  with ms r(2) have "list_all (\<lambda>m. msg_type m = INCOMING \<and> destination m = phone_number sample_session)
     [sample_message, sample_message]" by simp
  with r out show ?thesis by simp
qed

text \<open>
  A message sent to the session's own number has the number on both sides, so the invariant of
  the specification (exactly one side) does not hold of it.
\<close>

theorem message_to_own_number:
  "\<not> spec_invariant (phone_number own_number_world) (outgoing_message own_number_world) \<and>
   trace (world_of (send_message (sample_env not_found) own_number_world)) =
     [SendMessage (JStr ''token'') (JStr ''+61400000001'') (JStr ''hello'')]"
  by code_simp

subsection \<open>Local rejections\<close>

text \<open>
  Claim C10. Without a bearer, \<^verbatim>\<open>send_message\<close> and \<^verbatim>\<open>get_message\<close> only set the status to
  \<^verbatim>\<open>Request bearer first\<close>: no call is issued, and the received messages and the keys are
  unchanged.
\<close>

theorem no_bearer_no_request:
  assumes "bearer w = JNull"
  shows "send_message E w = Return () (w\<lparr>status := ''Request bearer first''\<rparr>) \<and>
         get_message E w = Some (Return () (w\<lparr>status := ''Request bearer first''\<rparr>)) \<and>
         trace (w\<lparr>status := ''Request bearer first''\<rparr>) = trace w \<and>
         received_messages (w\<lparr>status := ''Request bearer first''\<rparr>) = received_messages w \<and>
         keys (w\<lparr>status := ''Request bearer first''\<rparr>) = keys w"
  using assms by (simp add: send_message_def get_message_def set_status_def)

theorem no_bearer_no_request_witness:
  "bearer (initial_world Missing) = JNull \<and>
   send_message offline_env (initial_world Missing) =
     Return () ((initial_world Missing)\<lparr>status := ''Request bearer first''\<rparr>) \<and>
   get_message offline_env (initial_world Missing) =
     Some (Return () ((initial_world Missing)\<lparr>status := ''Request bearer first''\<rparr>))"
proof -
  have h: "bearer (initial_world Missing) = JNull" by (simp add: initial_world_def)
  from no_bearer_no_request [OF h, of offline_env] h show ?thesis by simp
qed

text \<open>
  Claim C7. When the destination or the text of the message is empty, \<^verbatim>\<open>send_message\<close> returns
  with a status that names the reason and issues no call of the provider.
\<close>

theorem blank_send_is_rejected:
  assumes "num_text w = [] \<or> msg_text w = []"
  shows "send_message E w =
           Return () (w\<lparr>status :=
              (if bearer w = JNull then ''Request bearer first''
               else if num_text w = [] then ''Number cannot be blank''
               else ''Message cannot be blank'')\<rparr>) \<and>
         trace (world_of (send_message E w)) = trace w"
  using assms by (auto simp add: send_message_def set_status_def outgoing_message_def)

theorem blank_send_is_rejected_witness:
  "num_text sample_session = [] \<and>
   send_message (sample_env not_found) sample_session =
     Return () (sample_session\<lparr>status := ''Number cannot be blank''\<rparr>) \<and>
   trace (world_of (send_message (sample_env not_found) sample_session)) = []"
proof -
  have h: "num_text sample_session = [] \<or> msg_text sample_session = []" by code_simp
  have s: "num_text sample_session = []" "bearer sample_session \<noteq> JNull"
    "trace sample_session = []" by code_simp+
  from blank_send_is_rejected [OF h, of "sample_env not_found"] s show ?thesis by simp
qed

subsection \<open>Timeouts\<close>

text \<open>
  Claim C6. When a call of the provider times out, whichever of the five operations it is,
  \<^verbatim>\<open>api_request\<close> returns \<^verbatim>\<open>None\<close> and does not raise, the box \<^verbatim>\<open>Request timed out\<close> is shown,
  and the keys, in memory and in the file, are as before. When the call is \<^verbatim>\<open>get_bearer\<close>, the
  workflow of \<^verbatim>\<open>choose_bearer\<close> ends there, with nothing else changed.
\<close>

theorem timeout_gives_no_result:
  assumes "provider E (trace w @ [c]) = Raises Timeout"
  shows "api_request E c w =
           Return None (w\<lparr>trace := trace w @ [c],
              dialogs := dialogs w @
                [(''Request timed out'', ''Check connection and try again'', Critical)]\<rparr>) \<and>
         keys (world_of (api_request E c w)) = keys w \<and>
         keys_file (world_of (api_request E c w)) = keys_file w \<and>
         (\<forall>i key secret. c = GetBearer key secret \<longrightarrow>
            request_bearer E i key secret w =
              Return () (w\<lparr>trace := trace w @ [c],
                 dialogs := dialogs w @
                   [(''Request timed out'', ''Check connection and try again'', Critical)]\<rparr>))"
  using assms
  by (auto simp add: api_request_def show_message_def request_bearer_def check_response_def)

theorem timeout_gives_no_result_witness:
  "provider offline_env (trace stored_world @ [GetNumber (JStr ''token'')]) = Raises Timeout \<and>
   api_request offline_env (GetNumber (JStr ''token'')) stored_world =
     Return None (stored_world\<lparr>trace := [GetNumber (JStr ''token'')],
        dialogs := [(''Request timed out'', ''Check connection and try again'', Critical)]\<rparr>) \<and>
   keys (world_of (api_request offline_env (GetNumber (JStr ''token'')) stored_world)) =
     JArr [JObj [(''key'', JStr sample_key), (''secret'', JStr sample_secret)]]"
proof -
  have h: "provider offline_env (trace stored_world @ [GetNumber (JStr ''token'')]) = Raises Timeout"
    by (simp add: offline_env_def)
  have s: "trace stored_world = []" "dialogs stored_world = []"
    "keys stored_world = JArr [JObj [(''key'', JStr sample_key), (''secret'', JStr sample_secret)]]"
    by (simp_all add: stored_world_def initial_world_def)
  from timeout_gives_no_result [OF h] h s show ?thesis by simp
qed

subsection \<open>The credential store\<close>

text \<open>
  Claim C4. \<^verbatim>\<open>load_keys\<close> returns, with the keys unchanged, and shows a warning when the file
  is missing and an error box when the parser rejects its text with a decode error. So the
  program starts without an exception, with the empty list of keys and the one box, in these
  two cases. Every other state of the file is outside them.
\<close>

theorem load_keys_fails_soft:
  "load_keys (w\<lparr>keys_file := Missing\<rparr>) =
     Return () (w\<lparr>keys_file := Missing, dialogs := dialogs w @
        [(''No existing keys.json file found'',
          ''Manually add keys and the program will create a new config file.'', Warning)]\<rparr>) \<and>
   load_keys (w\<lparr>keys_file := Malformed\<rparr>) =
     Return () (w\<lparr>keys_file := Malformed, dialogs := dialogs w @
        [(''Error parsing keys.json'',
          ''Check that the file is formatted as per the example.'', Critical)]\<rparr>) \<and>
   raised (App_init Missing) = None \<and> keys (world_of (App_init Missing)) = JArr [] \<and>
   dialogs (world_of (App_init Missing)) =
     [(''No existing keys.json file found'',
       ''Manually add keys and the program will create a new config file.'', Warning)] \<and>
   raised (App_init Malformed) = None \<and> keys (world_of (App_init Malformed)) = JArr [] \<and>
   dialogs (world_of (App_init Malformed)) =
     [(''Error parsing keys.json'',
       ''Check that the file is formatted as per the example.'', Critical)]"
  by (simp add: load_keys_def show_message_def initial_world_def App_init_def init_ui_def
      set_status_def)

text \<open>A file that exists but cannot be opened: the exception is not caught.\<close>

theorem load_keys_raises_unreadable:
  "load_keys (initial_world Unreadable) = Raise OSError (initial_world Unreadable) \<and>
   raised (App_init Unreadable) = Some OSError"
  by (simp add: load_keys_def initial_world_def App_init_def)

text \<open>
  Claim C5. For a valid sequence of entries and a writable file, saving the keys and then
  loading them, as a new run of the program does, gives the same sequence.
\<close>

theorem save_then_load:
  assumes "valid_entries (keys w)" and "writable E"
  shows "save_keys E w = Return () (w\<lparr>keys_file := Json (keys w)\<rparr>) \<and>
         load_keys (initial_world (keys_file (world_of (save_keys E w)))) =
           Return () ((initial_world (Json (keys w)))\<lparr>keys := keys w\<rparr>) \<and>
         raised (App_init (keys_file (world_of (save_keys E w)))) = None \<and>
         keys (world_of (App_init (keys_file (world_of (save_keys E w))))) = keys w"
  using assms
  by (simp add: save_keys_def load_keys_def initial_world_def App_init_def init_ui_def
      set_status_def)

theorem save_then_load_witness:
  "valid_entries (keys stored_world) \<and> writable offline_env \<and>
   keys (world_of (load_keys (initial_world
      (keys_file (world_of (save_keys offline_env stored_world)))))) =
     JArr [JObj [(''key'', JStr sample_key), (''secret'', JStr sample_secret)]]"
proof -
  have v: "valid_entries (keys stored_world)" by code_simp
  have wr: "writable offline_env" by code_simp
  have k: "keys stored_world = JArr [JObj [(''key'', JStr sample_key), (''secret'', JStr sample_secret)]]"
    by (simp add: stored_world_def initial_world_def)
  from save_then_load [OF v wr]
  have "load_keys (initial_world (keys_file (world_of (save_keys offline_env stored_world)))) =
      Return () ((initial_world (Json (keys stored_world)))\<lparr>keys := keys stored_world\<rparr>)"
    by blast
  with v wr show ?thesis by (simp add: k)
qed

end
